theory Spec2Isabelle
  imports Complex_Main "HOL-Library.Sublist"
begin

section \<open>Conventions of the embedding\<close>

text \<open>
  The program is the transaction reconciliation core of MoMoney: the deduplication engine
  (\<^verbatim>\<open>src/database/dedup.py\<close>), the rule matchers and the categorization pipeline
  (\<^verbatim>\<open>src/categorize/*.py\<close>) and the receipt matcher
  (\<^verbatim>\<open>src/categorize/receipt_lookup.py\<close>).

  \<^item> Monetary amounts, confidences and vote weights are Python floats in the source. They
    are modelled as exact rationals (\<open>rat\<close>): the amounts that occur are decimals with two
    places, and the comparisons of the source are made against tolerances that are far
    from the rounding error of a double on such values.
  \<^item> Python strings are modelled as \<open>string\<close> over ASCII; \<^verbatim>\<open>str.upper\<close> is the ASCII one.
  \<^item> An \<^verbatim>\<open>Optional[str]\<close> is a \<open>string option\<close>; Python's truth test on it holds for a
    non-empty string only.
  \<^item> A Python \<open>dict\<close> whose iteration order matters is an association list in insertion
    order; a YAML mapping with optional keys is a record with \<open>option\<close> fields.
  \<^item> The SQLite tables behind \<^verbatim>\<open>Repository\<close> are lists of rows in insertion order.
  \<^item> Functions of the Python standard library that the code calls but that are not part
    of the repository (SHA-256, \<^verbatim>\<open>difflib.SequenceMatcher.ratio\<close>, SQLite's
    \<^verbatim>\<open>JULIANDAY\<close>) are parameters of the functions that use them.
  \<^item> Names that start with an underscore in the source lose it here; record fields carry
    a prefix that names their class.
\<close>

section \<open>Strings\<close>

text \<open>\<^verbatim>\<open>str.upper()\<close> on ASCII text.\<close>

definition upper_char :: "char \<Rightarrow> char" where
  "upper_char c =
     (let n = (of_char c :: nat) in if 97 \<le> n \<and> n \<le> 122 then char_of (n - 32) else c)"

definition upper :: "string \<Rightarrow> string" where
  "upper s = map upper_char s"

text \<open>The characters that \<^verbatim>\<open>\s\<close> and \<^verbatim>\<open>str.strip()\<close> / \<^verbatim>\<open>str.split()\<close> treat as white space.\<close>

definition is_space :: "char \<Rightarrow> bool" where
  "is_space c = (let n = (of_char c :: nat) in (9 \<le> n \<and> n \<le> 13) \<or> (28 \<le> n \<and> n \<le> 32))"

definition is_digit :: "char \<Rightarrow> bool" where
  "is_digit c = (let n = (of_char c :: nat) in 48 \<le> n \<and> n \<le> 57)"

text \<open>\<^verbatim>\<open>str.strip()\<close>\<close>

definition strip :: "string \<Rightarrow> string" where
  "strip s = rev (dropWhile is_space (rev (dropWhile is_space s)))"

text \<open>\<^verbatim>\<open>str.split()\<close> without argument: the maximal runs of non-space characters.\<close>

fun split_ws :: "string \<Rightarrow> string \<Rightarrow> string list" where
  "split_ws w [] = (if w = [] then [] else [w])"
| "split_ws w (c # cs) =
     (if is_space c then (if w = [] then split_ws [] cs else w # split_ws [] cs)
      else split_ws (w @ [c]) cs)"

definition split :: "string \<Rightarrow> string list" where
  "split s = split_ws [] s"

text \<open>Python's truth test on an \<^verbatim>\<open>Optional[str]\<close>.\<close>

definition truthy :: "string option \<Rightarrow> bool" where
  "truthy x = (case x of None \<Rightarrow> False | Some s \<Rightarrow> s \<noteq> [])"

text \<open>\<^verbatim>\<open>str(n)\<close> for an integer.\<close>

fun show_nat :: "nat \<Rightarrow> string" where
  "show_nat n =
     (if n < 10 then [char_of (48 + n)] else show_nat (n div 10) @ [char_of (48 + n mod 10)])"

declare show_nat.simps [simp del]

definition show_int :: "int \<Rightarrow> string" where
  "show_int i = (if i < 0 then CHR ''-'' # show_nat (nat (- i)) else show_nat (nat i))"

text \<open>Python's \<^verbatim>\<open>round(x)\<close>: to the nearest integer, ties to the even one.\<close>

definition py_round :: "rat \<Rightarrow> int" where
  "py_round x =
     (let f = \<lfloor>x\<rfloor>; d = x - of_int f
      in if d < 1 / 2 then f else if 1 / 2 < d then f + 1 else if even f then f else f + 1)"

text \<open>\<^verbatim>\<open>f"{amount:.2f}"\<close>\<close>

definition format_2f :: "rat \<Rightarrow> string" where
  "format_2f x =
     (let c = nat \<bar>py_round (x * 100)\<bar>; frac = c mod 100
      in (if x < 0 then ''-'' else '''') @ show_nat (c div 100) @ ''.''
         @ (if frac < 10 then ''0'' else '''') @ show_nat frac)"

section \<open>Description normalisation (\<^verbatim>\<open>src/parsers/base.py\<close>)\<close>

text \<open>\<^verbatim>\<open>re.sub(r'\d{4,}', '', desc)\<close>: every maximal run of four or more digits is removed.
  The first argument collects the run of digits being read.\<close>

fun strip_long_numbers :: "string \<Rightarrow> string \<Rightarrow> string" where
  "strip_long_numbers run [] = (if 4 \<le> length run then [] else run)"
| "strip_long_numbers run (c # cs) =
     (if is_digit c then strip_long_numbers (run @ [c]) cs
      else (if 4 \<le> length run then [] else run) @ c # strip_long_numbers [] cs)"

text \<open>\<^verbatim>\<open>re.sub(r'#\d+', '', desc)\<close>: a \<open>#\<close> followed by digits is removed with its digits.
  The flag says that the digits after such a \<open>#\<close> are being skipped.\<close>

fun strip_hash_numbers :: "bool \<Rightarrow> string \<Rightarrow> string" where
  "strip_hash_numbers skipping [] = []"
| "strip_hash_numbers skipping (c # cs) =
     (if skipping \<and> is_digit c then strip_hash_numbers True cs
      else if c = CHR ''#'' \<and> (case cs of [] \<Rightarrow> False | d # _ \<Rightarrow> is_digit d)
        then strip_hash_numbers True cs
      else c # strip_hash_numbers False cs)"

text \<open>\<^verbatim>\<open>re.sub(r'\s{2,}', ' ', desc)\<close>: a run of two or more white-space characters becomes
  one blank; a single white-space character stays as it is.\<close>

fun collapse_spaces :: "string \<Rightarrow> string \<Rightarrow> string" where
  "collapse_spaces run [] = (if 2 \<le> length run then '' '' else run)"
| "collapse_spaces run (c # cs) =
     (if is_space c then collapse_spaces (run @ [c]) cs
      else (if 2 \<le> length run then '' '' else run) @ c # collapse_spaces [] cs)"

definition normalize_description :: "string \<Rightarrow> string" where
  "normalize_description desc =
     strip (collapse_spaces []
       (filter (\<lambda>c. c \<noteq> CHR ''*'' \<and> c \<noteq> CHR ''#'')
         (strip_hash_numbers False (strip_long_numbers [] (upper desc)))))"

section \<open>Subset-sum search of the deduplication engine\<close>

text \<open>
  \<^verbatim>\<open>itertools.combinations(range(n), size)\<close>: all index tuples of the given size, in
  lexicographic order. \<open>combinations xs k\<close> lists the sub-sequences of \<open>xs\<close> of length
  \<open>k\<close> in that order.
\<close>

fun combinations :: "'a list \<Rightarrow> nat \<Rightarrow> 'a list list" where
  "combinations xs 0 = [[]]"
| "combinations [] (Suc k) = []"
| "combinations (x # xs) (Suc k) =
     map ((#) x) (combinations xs k) @ combinations xs (Suc k)"

text \<open>\<^verbatim>\<open>sum(amounts[i] for i in combo)\<close>\<close>

definition subset_total :: "rat list \<Rightarrow> nat list \<Rightarrow> rat" where
  "subset_total amounts combo = sum_list (map (\<lambda>i. amounts ! i) combo)"

text \<open>
  \<^verbatim>\<open>_find_subset_sum(amounts, target, tolerance=0.01)\<close> of \<^verbatim>\<open>dedup.py\<close>: the two nested
  loops, over the sizes \<open>2..n\<close> and over the combinations of each size, return at the
  first hit.
\<close>

definition find_subset_sum :: "rat list \<Rightarrow> rat \<Rightarrow> rat \<Rightarrow> nat list option" where
  "find_subset_sum amounts target tolerance =
     (let n = length amounts in
      if n < 2 \<or> n > 20 then None
      else find (\<lambda>combo. \<bar>subset_total amounts combo - target\<bar> \<le> tolerance)
             (concat (map (combinations [0..<n]) [2..<n + 1])))"

section \<open>Data model (\<^verbatim>\<open>src/parsers/base.py\<close>, \<^verbatim>\<open>src/database/models.py\<close>)\<close>

text \<open>\<^verbatim>\<open>RawTransaction\<close>: the output of a parser, not yet persisted.\<close>

record raw_transaction =
  r_date :: string
  r_amount :: rat
  r_raw_description :: string
  r_account_id :: string
  r_memo :: "string option"
  r_txn_type :: "string option"
  r_external_id :: "string option"
  r_check_num :: "string option"
  r_balance :: "rat option"
  r_budget_app_category_id :: "string option"

text \<open>\<^verbatim>\<open>Transaction\<close>: a row of the table \<^verbatim>\<open>transactions\<close>. The two time stamps of the
  source are left out: no function modelled here reads them.\<close>

record transaction =
  t_id :: string
  t_account_id :: string
  t_date :: string
  t_amount :: rat
  t_raw_description :: string
  t_import_id :: string
  t_import_hash :: string
  t_dedup_key :: string
  t_normalized_description :: "string option"
  t_memo :: "string option"
  t_txn_type :: "string option"
  t_check_num :: "string option"
  t_balance :: "rat option"
  t_external_id :: "string option"
  t_source :: string
  t_status :: string
  t_confidence :: "rat option"
  t_categorization_method :: "string option"
  t_receipt_lookup_status :: "string option"

text \<open>\<^verbatim>\<open>Allocation\<close>, \<^verbatim>\<open>Transfer\<close> and \<^verbatim>\<open>ReceiptMatch\<close>. Their primary keys are random
  UUIDs that nothing reads, and are left out with the time stamps.\<close>

record allocation =
  a_transaction_id :: string
  a_category_id :: string
  a_amount :: rat
  a_memo :: "string option"
  a_tags :: "string option"
  a_source :: string
  a_confidence :: "rat option"

record transfer =
  x_from_transaction_id :: string
  x_to_transaction_id :: string
  x_transfer_type :: string
  x_match_method :: string
  x_confidence :: "rat option"

text \<open>\<^verbatim>\<open>ReceiptItem\<close> of \<^verbatim>\<open>receipt_lookup.py\<close>, which a receipt match stores.\<close>

record receipt_item =
  i_name :: string
  i_amount :: rat
  i_category_id :: "string option"

record receipt_match =
  m_transaction_id :: string
  m_gmail_message_id :: string
  m_match_type :: string
  m_matched_items :: "receipt_item list"
  m_confidence :: "rat option"

text \<open>The state behind a \<^verbatim>\<open>Repository\<close>: the tables that the modelled functions read or
  write.\<close>

record repository =
  transactions :: "transaction list"
  allocations :: "allocation list"
  transfers :: "transfer list"
  receipt_matches :: "receipt_match list"

section \<open>Repository queries and writes (\<^verbatim>\<open>src/database/repository.py\<close>)\<close>

text \<open>In SQL a comparison with \<^verbatim>\<open>NULL\<close> is never true, so \<^verbatim>\<open>external_id = ?\<close> selects the
  rows whose identifier is present and equal.\<close>

definition get_transaction_by_external_id ::
  "repository \<Rightarrow> string \<Rightarrow> string \<Rightarrow> transaction option" where
  "get_transaction_by_external_id repo account_id external_id =
     find (\<lambda>t. t_account_id t = account_id \<and> t_external_id t = Some external_id)
       (transactions repo)"

definition get_transactions_by_import_hash :: "repository \<Rightarrow> string \<Rightarrow> transaction list" where
  "get_transactions_by_import_hash repo import_hash =
     filter (\<lambda>t. t_import_hash t = import_hash) (transactions repo)"

definition get_transactions_by_dedup_key :: "repository \<Rightarrow> string \<Rightarrow> transaction list" where
  "get_transactions_by_dedup_key repo dedup_key =
     filter (\<lambda>t. t_dedup_key t = dedup_key) (transactions repo)"

definition get_transactions_by_account_and_date ::
  "repository \<Rightarrow> string \<Rightarrow> string \<Rightarrow> transaction list" where
  "get_transactions_by_account_and_date repo account_id date =
     filter (\<lambda>t. t_account_id t = account_id \<and> t_date t = date) (transactions repo)"

definition insert_transactions_batch :: "repository \<Rightarrow> transaction list \<Rightarrow> repository" where
  "insert_transactions_batch repo txns = repo\<lparr>transactions := transactions repo @ txns\<rparr>"

definition insert_allocation :: "repository \<Rightarrow> allocation \<Rightarrow> repository" where
  "insert_allocation repo alloc = repo\<lparr>allocations := allocations repo @ [alloc]\<rparr>"

definition get_allocations_by_transaction :: "repository \<Rightarrow> string \<Rightarrow> allocation list" where
  "get_allocations_by_transaction repo txn_id =
     filter (\<lambda>a. a_transaction_id a = txn_id) (allocations repo)"

text \<open>\<^verbatim>\<open>update_transaction_status(txn_id, status, confidence, method)\<close> as the pipeline calls
  it, with both optional columns given.\<close>

definition update_transaction_status ::
  "repository \<Rightarrow> string \<Rightarrow> string \<Rightarrow> rat option \<Rightarrow> string option \<Rightarrow> repository" where
  "update_transaction_status repo txn_id status confidence method =
     repo\<lparr>transactions :=
       map (\<lambda>t. if t_id t = txn_id
                then t\<lparr>t_status := status, t_confidence := confidence,
                       t_categorization_method := method\<rparr>
                else t)
         (transactions repo)\<rparr>"

definition insert_transfer :: "repository \<Rightarrow> transfer \<Rightarrow> repository" where
  "insert_transfer repo xfer = repo\<lparr>transfers := transfers repo @ [xfer]\<rparr>"

definition get_transfer_by_transaction :: "repository \<Rightarrow> string \<Rightarrow> transfer option" where
  "get_transfer_by_transaction repo txn_id =
     find (\<lambda>x. x_from_transaction_id x = txn_id \<or> x_to_transaction_id x = txn_id)
       (transfers repo)"

definition insert_receipt_match :: "repository \<Rightarrow> receipt_match \<Rightarrow> repository" where
  "insert_receipt_match repo m = repo\<lparr>receipt_matches := receipt_matches repo @ [m]\<rparr>"

text \<open>\<^verbatim>\<open>find_transfer_candidates(txn, days=5)\<close>: the rows on another account whose amount
  is within a cent of the negated amount, dated within \<open>days\<close> days, that no transfer
  mentions, the nearest date first. \<open>julianday\<close> is SQLite's function of that name; it
  yields \<^verbatim>\<open>NULL\<close> on a text that is no date, and then the row is not selected.\<close>

definition date_distance :: "(string \<Rightarrow> rat option) \<Rightarrow> string \<Rightarrow> string \<Rightarrow> rat option" where
  "date_distance julianday d1 d2 =
     (case (julianday d1, julianday d2) of
        (Some j1, Some j2) \<Rightarrow> Some \<bar>j1 - j2\<bar>
      | _ \<Rightarrow> None)"

definition linked_ids :: "repository \<Rightarrow> string list" where
  "linked_ids repo =
     map x_from_transaction_id (transfers repo) @ map x_to_transaction_id (transfers repo)"

definition find_transfer_candidates ::
  "(string \<Rightarrow> rat option) \<Rightarrow> repository \<Rightarrow> transaction \<Rightarrow> rat \<Rightarrow> transaction list" where
  "find_transfer_candidates julianday repo txn days =
     sort_key (\<lambda>t. case date_distance julianday (t_date t) (t_date txn) of
                    None \<Rightarrow> 0 | Some d \<Rightarrow> d)
       (filter (\<lambda>t. t_account_id t \<noteq> t_account_id txn
                  \<and> \<bar>t_amount t + t_amount txn\<bar> < 1 / 100
                  \<and> (case date_distance julianday (t_date t) (t_date txn) of
                        None \<Rightarrow> False | Some d \<Rightarrow> d \<le> days)
                  \<and> t_id t \<notin> set (linked_ids repo))
         (transactions repo))"

section \<open>Deduplication engine (\<^verbatim>\<open>src/database/dedup.py\<close>)\<close>

text \<open>\<^verbatim>\<open>compute_import_hash\<close> and \<^verbatim>\<open>compute_dedup_key\<close> of \<^verbatim>\<open>src/parsers/base.py\<close>.
  \<open>sha256\<close> stands for \<^verbatim>\<open>hashlib.sha256(...).hexdigest()\<close>.\<close>

definition compute_import_hash ::
  "(string \<Rightarrow> string) \<Rightarrow> string \<Rightarrow> string \<Rightarrow> rat \<Rightarrow> string \<Rightarrow> string" where
  "compute_import_hash sha256 account_id date amount raw_desc =
     sha256 (account_id @ ''|'' @ date @ ''|'' @ format_2f amount @ ''|'' @ raw_desc)"

definition compute_dedup_key :: "string \<Rightarrow> string \<Rightarrow> rat \<Rightarrow> string" where
  "compute_dedup_key account_id date amount =
     account_id @ '':'' @ date @ '':'' @ show_int (py_round (amount * 100))"

text \<open>\<^verbatim>\<open>DedupResult\<close>\<close>

record dedup_result =
  d_status :: string
  d_tier :: "string option"
  d_matched_txn :: "transaction option"
  d_confidence :: "rat option"
  d_matched_splits :: "transaction list option"

definition dedup_new :: dedup_result where
  "dedup_new = \<lparr>d_status = ''new'', d_tier = None, d_matched_txn = None,
                d_confidence = None, d_matched_splits = None\<rparr>"

text \<open>Tier 2: \<^verbatim>\<open>check_external_id\<close>\<close>

definition check_external_id ::
  "repository \<Rightarrow> string \<Rightarrow> string option \<Rightarrow> transaction option" where
  "check_external_id repo account_id external_id =
     (case external_id of
        None \<Rightarrow> None
      | Some e \<Rightarrow> if e = [] then None else get_transaction_by_external_id repo account_id e)"

text \<open>Tier 3: \<^verbatim>\<open>check_import_hash\<close>\<close>

definition check_import_hash ::
  "repository \<Rightarrow> string \<Rightarrow> string option \<Rightarrow> transaction option" where
  "check_import_hash repo import_hash external_id =
     (case get_transactions_by_import_hash repo import_hash of
        [] \<Rightarrow> None
      | m0 # ms \<Rightarrow>
          if truthy external_id
          then find (\<lambda>m. t_external_id m = None \<or> t_external_id m = external_id) (m0 # ms)
          else Some m0)"

text \<open>Tier 3.5: \<^verbatim>\<open>check_cross_format_duplicate\<close>. The existing rows of the opposite source:
  those without identifier for an incoming row that has one, those with an identifier
  for an incoming row that has none.\<close>

definition check_cross_format_duplicate ::
  "repository \<Rightarrow> string \<Rightarrow> bool \<Rightarrow> transaction list" where
  "check_cross_format_duplicate repo dedup_key has_external_id =
     filter (\<lambda>c. (has_external_id \<and> t_external_id c = None)
                \<or> (\<not> has_external_id \<and> t_external_id c \<noteq> None))
       (get_transactions_by_dedup_key repo dedup_key)"

text \<open>\<^verbatim>\<open>_descriptions_related\<close>\<close>

definition descriptions_related :: "string \<Rightarrow> string \<Rightarrow> bool" where
  "descriptions_related desc_a desc_b =
     (let a = upper (normalize_description desc_a);
          b = upper (normalize_description desc_b)
      in if a = [] \<or> b = [] then False
         else if sublist a b \<or> sublist b a then True
         else (\<exists>w \<in> set (filter (\<lambda>w. 3 \<le> length w) (split a)).
                 w \<in> set (filter (\<lambda>w. 3 \<le> length w) (split b))))"

text \<open>Tier 3.6: \<^verbatim>\<open>check_split_sum_duplicate\<close>\<close>

definition check_split_sum_duplicate ::
  "repository \<Rightarrow> string \<Rightarrow> string \<Rightarrow> rat \<Rightarrow> string \<Rightarrow> bool \<Rightarrow> transaction list option" where
  "check_split_sum_duplicate repo account_id date amount raw_description has_external_id =
     (let candidates = get_transactions_by_account_and_date repo account_id date;
          opposite = filter (\<lambda>c. (has_external_id \<and> t_external_id c = None)
                               \<or> (\<not> has_external_id \<and> t_external_id c \<noteq> None)) candidates;
          related = filter (\<lambda>c. descriptions_related raw_description (t_raw_description c))
                      opposite
      in if candidates = [] then None
         else if length opposite < 2 then None
         else if length related < 2 then None
         else (case find_subset_sum (map t_amount related) amount (1 / 100) of
                 Some indices \<Rightarrow> Some (map (\<lambda>i. related ! i) indices)
               | None \<Rightarrow> None))"

text \<open>\<^verbatim>\<open>description_similarity\<close>; \<open>ratio\<close> stands for
  \<^verbatim>\<open>SequenceMatcher(None, a, b).ratio()\<close>.\<close>

definition description_similarity :: "(string \<Rightarrow> string \<Rightarrow> rat) \<Rightarrow> string \<Rightarrow> string \<Rightarrow> rat" where
  "description_similarity ratio a b =
     (if a = [] \<and> b = [] then 1 else if a = [] \<or> b = [] then 0 else ratio a b)"

text \<open>Tier 4: \<^verbatim>\<open>check_fuzzy_duplicate\<close>. The loop keeps the first candidate of the
  highest score above 0.\<close>

fun best_fuzzy ::
  "(string \<Rightarrow> string \<Rightarrow> rat) \<Rightarrow> string \<Rightarrow> transaction list
     \<Rightarrow> transaction option \<times> rat \<Rightarrow> transaction option \<times> rat" where
  "best_fuzzy ratio norm_desc [] best = best"
| "best_fuzzy ratio norm_desc (candidate # cs) (best_match, best_score) =
     (let existing_desc =
            (case t_normalized_description candidate of
               Some d \<Rightarrow> if d \<noteq> [] then d
                         else normalize_description (t_raw_description candidate)
             | None \<Rightarrow> normalize_description (t_raw_description candidate));
          score = description_similarity ratio norm_desc existing_desc
      in if best_score < score
         then best_fuzzy ratio norm_desc cs (Some candidate, score)
         else best_fuzzy ratio norm_desc cs (best_match, best_score))"

definition FUZZY_THRESHOLD :: rat where
  "FUZZY_THRESHOLD = 85 / 100"

definition check_fuzzy_duplicate ::
  "(string \<Rightarrow> string \<Rightarrow> rat) \<Rightarrow> repository \<Rightarrow> string \<Rightarrow> string \<Rightarrow> rat option
     \<Rightarrow> dedup_result" where
  "check_fuzzy_duplicate ratio repo dedup_key raw_description threshold =
     (let thr = (case threshold of None \<Rightarrow> FUZZY_THRESHOLD | Some t \<Rightarrow> t);
          candidates = get_transactions_by_dedup_key repo dedup_key
      in if candidates = [] then dedup_new
         else (case best_fuzzy ratio (normalize_description raw_description) candidates
                      (None, 0) of
                 (best_match, best_score) \<Rightarrow>
                   if thr \<le> best_score
                   then \<lparr>d_status = ''flagged'', d_tier = Some ''fuzzy'',
                         d_matched_txn = best_match, d_confidence = Some best_score,
                         d_matched_splits = None\<rparr>
                   else dedup_new))"

text \<open>\<^verbatim>\<open>deduplicate\<close>: tiers 2 to 4 on one incoming row; the first decisive tier wins.
  \<^verbatim>\<open>import_id\<close> is accepted and not used, as in the source.\<close>

definition deduplicate ::
  "(string \<Rightarrow> string) \<Rightarrow> (string \<Rightarrow> string \<Rightarrow> rat) \<Rightarrow> repository \<Rightarrow> raw_transaction
     \<Rightarrow> string \<Rightarrow> dedup_result" where
  "deduplicate sha256 ratio repo raw import_id =
     (case check_external_id repo (r_account_id raw) (r_external_id raw) of
        Some existing \<Rightarrow>
          \<lparr>d_status = ''duplicate'', d_tier = Some ''external_id'',
           d_matched_txn = Some existing, d_confidence = None, d_matched_splits = None\<rparr>
      | None \<Rightarrow>
     (case check_import_hash repo
             (compute_import_hash sha256 (r_account_id raw) (r_date raw) (r_amount raw)
                (r_raw_description raw))
             (r_external_id raw) of
        Some existing \<Rightarrow>
          \<lparr>d_status = ''duplicate'', d_tier = Some ''import_hash'',
           d_matched_txn = Some existing, d_confidence = None, d_matched_splits = None\<rparr>
      | None \<Rightarrow>
     (let dedup_key = compute_dedup_key (r_account_id raw) (r_date raw) (r_amount raw) in
      case check_cross_format_duplicate repo dedup_key (truthy (r_external_id raw)) of
        c0 # cs \<Rightarrow>
          \<lparr>d_status = ''duplicate'', d_tier = Some ''cross_format'',
           d_matched_txn = Some c0, d_confidence = None, d_matched_splits = None\<rparr>
      | [] \<Rightarrow>
     (case check_split_sum_duplicate repo (r_account_id raw) (r_date raw) (r_amount raw)
             (r_raw_description raw) (truthy (r_external_id raw)) of
        Some (s0 # ss) \<Rightarrow>
          \<lparr>d_status = ''duplicate'', d_tier = Some ''split_sum'',
           d_matched_txn = Some s0, d_confidence = None,
           d_matched_splits = Some (s0 # ss)\<rparr>
      | _ \<Rightarrow>
     (if \<not> truthy (r_external_id raw)
      then (let fuzzy_result =
                  check_fuzzy_duplicate ratio repo dedup_key (r_raw_description raw) None
            in if d_status fuzzy_result = ''flagged'' then fuzzy_result else dedup_new)
      else dedup_new)))))"

subsection \<open>Batch processing\<close>

text \<open>The local variables of the loop of \<^verbatim>\<open>process_batch\<close>. \<^verbatim>\<open>seen_external_ids\<close> is a
  dictionary used as a set of pairs; \<^verbatim>\<open>cross_format_used\<close> maps a dedup key to the number
  of cross-format slots consumed, the newest binding first.\<close>

record batch_state =
  new_txns :: "transaction list"
  duplicates :: "dedup_result list"
  flagged :: "transaction list"
  seen_external_ids :: "(string \<times> string) list"
  seen_import_hashes :: "string list"
  cross_format_used :: "(string \<times> nat) list"
  split_sum_consumed :: "string list"

definition batch_init :: batch_state where
  "batch_init = \<lparr>new_txns = [], duplicates = [], flagged = [], seen_external_ids = [],
                 seen_import_hashes = [], cross_format_used = [], split_sum_consumed = []\<rparr>"

text \<open>\<^verbatim>\<open>cross_format_used.get(dk, 0)\<close>\<close>

definition used_slots :: "batch_state \<Rightarrow> string \<Rightarrow> nat" where
  "used_slots s dk = (case map_of (cross_format_used s) dk of None \<Rightarrow> 0 | Some u \<Rightarrow> u)"

text \<open>The end of the loop body (from \<^verbatim>\<open>if result.status == "duplicate"\<close> on): a duplicate is
  counted, any other row becomes a \<^verbatim>\<open>Transaction\<close> and is recorded for the intra-batch
  checks. \<open>new_id\<close> stands for the UUID generator: \<open>new_id k\<close> is the identifier of the
  \<open>k\<close>-th transaction that the batch creates.\<close>

definition make_transaction ::
  "string \<Rightarrow> raw_transaction \<Rightarrow> string \<Rightarrow> string \<Rightarrow> string \<Rightarrow> string \<Rightarrow> transaction" where
  "make_transaction txn_id raw import_id import_hash source status =
     \<lparr>t_id = txn_id, t_account_id = r_account_id raw, t_date = r_date raw,
      t_amount = r_amount raw, t_raw_description = r_raw_description raw,
      t_import_id = import_id, t_import_hash = import_hash,
      t_dedup_key = compute_dedup_key (r_account_id raw) (r_date raw) (r_amount raw),
      t_normalized_description = Some (normalize_description (r_raw_description raw)),
      t_memo = r_memo raw, t_txn_type = r_txn_type raw, t_check_num = r_check_num raw,
      t_balance = r_balance raw, t_external_id = r_external_id raw, t_source = source,
      t_status = status, t_confidence = None, t_categorization_method = None,
      t_receipt_lookup_status = None\<rparr>"

definition finish_row ::
  "(nat \<Rightarrow> string) \<Rightarrow> string \<Rightarrow> string \<Rightarrow> batch_state \<Rightarrow> raw_transaction \<Rightarrow> string
     \<Rightarrow> dedup_result \<Rightarrow> batch_state" where
  "finish_row new_id import_id source s raw import_hash result =
     (if d_status result = ''duplicate''
      then s\<lparr>duplicates := duplicates s @ [result]\<rparr>
      else
        (let status = (if d_status result = ''flagged'' then ''flagged'' else ''pending'');
             txn = make_transaction (new_id (length (new_txns s) + length (flagged s)))
                     raw import_id import_hash source status;
             s1 = s\<lparr>seen_external_ids :=
                       (case r_external_id raw of
                          Some e \<Rightarrow> if e \<noteq> [] then (r_account_id raw, e) # seen_external_ids s
                                    else seen_external_ids s
                        | None \<Rightarrow> seen_external_ids s),
                     seen_import_hashes := import_hash # seen_import_hashes s\<rparr>
         in if status = ''flagged''
            then s1\<lparr>flagged := flagged s1 @ [txn]\<rparr>
            else s1\<lparr>new_txns := new_txns s1 @ [txn]\<rparr>))"

text \<open>The split-sum bookkeeping: a split-sum duplicate is accepted when none of its
  matched rows was consumed before; otherwise the row is new.\<close>

definition split_sum_row ::
  "(nat \<Rightarrow> string) \<Rightarrow> string \<Rightarrow> string \<Rightarrow> batch_state \<Rightarrow> raw_transaction \<Rightarrow> string
     \<Rightarrow> dedup_result \<Rightarrow> batch_state" where
  "split_sum_row new_id import_id source s raw import_hash result =
     (if d_status result = ''duplicate'' \<and> d_tier result = Some ''split_sum''
      then
        (let matched_ids = map t_id (case d_matched_splits result of
                                       None \<Rightarrow> [] | Some ts \<Rightarrow> ts)
         in if \<not> (\<exists>i \<in> set matched_ids. i \<in> set (split_sum_consumed s))
            then s\<lparr>split_sum_consumed := matched_ids @ split_sum_consumed s,
                   duplicates := duplicates s @ [result]\<rparr>
            else finish_row new_id import_id source s raw import_hash dedup_new)
      else finish_row new_id import_id source s raw import_hash result)"

text \<open>The cross-format bookkeeping: a cross-format duplicate consumes a slot of its dedup
  key while fewer slots are used than opposite-source rows exist; otherwise the row is
  new.\<close>

definition cross_format_row ::
  "(nat \<Rightarrow> string) \<Rightarrow> repository \<Rightarrow> string \<Rightarrow> string \<Rightarrow> batch_state \<Rightarrow> raw_transaction
     \<Rightarrow> string \<Rightarrow> dedup_result \<Rightarrow> batch_state" where
  "cross_format_row new_id repo import_id source s raw import_hash result =
     (if d_status result = ''duplicate'' \<and> d_tier result = Some ''cross_format''
      then
        (let dk = compute_dedup_key (r_account_id raw) (r_date raw) (r_amount raw);
             cross_matches = check_cross_format_duplicate repo dk (truthy (r_external_id raw));
             used = used_slots s dk
         in if used < length cross_matches
            then s\<lparr>cross_format_used := (dk, used + 1) # cross_format_used s,
                   duplicates := duplicates s @ [result]\<rparr>
            else split_sum_row new_id import_id source s raw import_hash dedup_new)
      else split_sum_row new_id import_id source s raw import_hash result)"

text \<open>One iteration of the loop: the two intra-batch checks, then \<^verbatim>\<open>deduplicate\<close> and the
  bookkeeping above.\<close>

definition dup_only :: "string \<Rightarrow> dedup_result" where
  "dup_only tier = \<lparr>d_status = ''duplicate'', d_tier = Some tier, d_matched_txn = None,
                    d_confidence = None, d_matched_splits = None\<rparr>"

definition seen_in_batch :: "batch_state \<Rightarrow> raw_transaction \<Rightarrow> bool" where
  "seen_in_batch s raw =
     (case r_external_id raw of
        Some e \<Rightarrow> e \<noteq> [] \<and> (r_account_id raw, e) \<in> set (seen_external_ids s)
      | None \<Rightarrow> False)"

definition process_row ::
  "(string \<Rightarrow> string) \<Rightarrow> (string \<Rightarrow> string \<Rightarrow> rat) \<Rightarrow> (nat \<Rightarrow> string) \<Rightarrow> repository
     \<Rightarrow> string \<Rightarrow> string \<Rightarrow> batch_state \<Rightarrow> raw_transaction \<Rightarrow> batch_state" where
  "process_row sha256 ratio new_id repo import_id source s raw =
     (if seen_in_batch s raw
      then s\<lparr>duplicates := duplicates s @ [dup_only ''external_id'']\<rparr>
      else
        (let import_hash_early =
               compute_import_hash sha256 (r_account_id raw) (r_date raw) (r_amount raw)
                 (r_raw_description raw)
         in if import_hash_early \<in> set (seen_import_hashes s) \<and> \<not> truthy (r_external_id raw)
            then s\<lparr>duplicates := duplicates s @ [dup_only ''import_hash'']\<rparr>
            else cross_format_row new_id repo import_id source s raw import_hash_early
                   (deduplicate sha256 ratio repo raw import_id)))"

text \<open>The loop over the batch, in the order of the parser.\<close>

definition process_rows ::
  "(string \<Rightarrow> string) \<Rightarrow> (string \<Rightarrow> string \<Rightarrow> rat) \<Rightarrow> (nat \<Rightarrow> string) \<Rightarrow> repository
     \<Rightarrow> string \<Rightarrow> string \<Rightarrow> batch_state \<Rightarrow> raw_transaction list \<Rightarrow> batch_state" where
  "process_rows sha256 ratio new_id repo import_id source s raw_txns =
     foldl (process_row sha256 ratio new_id repo import_id source) s raw_txns"

text \<open>\<^verbatim>\<open>BatchResult\<close> and \<^verbatim>\<open>process_batch\<close>, which returns the summary and the repository
  after the single batch insert.\<close>

record batch_result =
  b_new_count :: nat
  b_duplicate_count :: nat
  b_flagged_count :: nat
  b_transactions :: "transaction list"

definition process_batch ::
  "(string \<Rightarrow> string) \<Rightarrow> (string \<Rightarrow> string \<Rightarrow> rat) \<Rightarrow> (nat \<Rightarrow> string) \<Rightarrow> repository
     \<Rightarrow> raw_transaction list \<Rightarrow> string \<Rightarrow> string \<Rightarrow> batch_result \<times> repository" where
  "process_batch sha256 ratio new_id repo raw_txns import_id source =
     (let s = process_rows sha256 ratio new_id repo import_id source batch_init raw_txns;
          all_insert = new_txns s @ flagged s
      in (\<lparr>b_new_count = length (new_txns s), b_duplicate_count = length (duplicates s),
           b_flagged_count = length (flagged s), b_transactions = new_txns s @ flagged s\<rparr>,
          if all_insert = [] then repo else insert_transactions_batch repo all_insert))"

text \<open>Notions used to state the count limit of tier 3.5. A recorded duplicate is a
  cross-format duplicate for the dedup key \<open>dk\<close> and an incoming row with
  (\<open>has_external_id\<close>) or without identifier when it was decided at that tier against an
  existing row of that key and of the opposite source.\<close>

definition is_cross_format_dup :: "string \<Rightarrow> bool \<Rightarrow> dedup_result \<Rightarrow> bool" where
  "is_cross_format_dup dk has_external_id d =
     (d_status d = ''duplicate'' \<and> d_tier d = Some ''cross_format''
      \<and> (case d_matched_txn d of
           None \<Rightarrow> False
         | Some m \<Rightarrow> t_dedup_key m = dk \<and> (t_external_id m = None) = has_external_id))"

text \<open>The result that \<open>deduplicate\<close> returns at tier 3.5 with the matched row \<open>c0\<close>.\<close>

definition cf_result :: "transaction \<Rightarrow> dedup_result" where
  "cf_result c0 = \<lparr>d_status = ''duplicate'', d_tier = Some ''cross_format'',
                    d_matched_txn = Some c0, d_confidence = None, d_matched_splits = None\<rparr>"

definition cross_format_count :: "batch_state \<Rightarrow> string \<Rightarrow> bool \<Rightarrow> nat" where
  "cross_format_count s dk has_external_id =
     length (filter (is_cross_format_dup dk has_external_id) (duplicates s))"

text \<open>The bookkeeping invariant of the loop: the slots used for a key are the
  cross-format duplicates recorded for it, and no more such duplicates are recorded than
  opposite-source rows exist.\<close>

definition batch_inv :: "repository \<Rightarrow> batch_state \<Rightarrow> bool" where
  "batch_inv repo s =
     ((\<forall>dk. used_slots s dk = cross_format_count s dk True + cross_format_count s dk False)
      \<and> (\<forall>dk h. cross_format_count s dk h
                  \<le> length (check_cross_format_duplicate repo dk h)))"

section \<open>Configuration (\<^verbatim>\<open>src/config.py\<close>)\<close>

text \<open>The YAML files are lists and mappings. Each mapping that the code reads is a record
  here; a key that may be absent is an \<open>option\<close> field, and a key that the code reads
  with a default (\<^verbatim>\<open>d.get(k, default)\<close>) is a field that holds the default when the key
  is absent.\<close>

record category_filter =
  cf_default_category :: "string option"
  cf_compatible_prefixes :: "string list"
  cf_compatible_ids :: "string list"

record interest_detection =
  id_fitid_suffix :: string
  id_category_id :: string

record account =
  ac_id :: "string option"
  ac_name :: string
  ac_budget_app_name :: string
  ac_transfer_aliases :: "string list"
  ac_account_type :: string
  ac_category_filter :: "category_filter option"
  ac_interest_detection :: "interest_detection option"

record transfer_rule =
  tr_pattern_fitid_suffix :: "string option"
  tr_pattern :: string
  tr_from_account :: string
  tr_to_account :: string
  tr_type :: "string option"

record merchant_rule =
  mr_match :: string
  mr_pattern :: string
  mr_category_id :: "string option"
  mr_consistency :: rat
  mr_merchant_name :: "string option"

record amount_rule =
  ar_whole_dollar :: bool
  ar_amount_range :: "(rat \<times> rat) option"
  ar_category_id :: "string option"
  ar_confidence :: string
  ar_note :: "string option"

record amount_rule_set =
  rs_merchant_pattern :: string
  rs_accounts :: "string list option"
  rs_rules :: "amount_rule list"

record account_rule =
  acr_account :: "string option"
  acr_non_transfer_category :: "string option"
  acr_default_category :: "string option"
  acr_note :: "string option"

record config =
  cfg_accounts :: "account list"
  cfg_transfers :: "transfer_rule list"
  cfg_merchants_auto :: "merchant_rule list"
  cfg_merchants_high :: "merchant_rule list"
  cfg_amount_rules :: "amount_rule_set list"
  cfg_account_rules :: "account_rule list"
  cfg_transfer_categories :: "(string \<times> string) list"
  cfg_fallback_category :: "string option"

text \<open>\<^verbatim>\<open>d[k] = v\<close> on a dictionary kept as an association list: an existing key keeps its
  place, a new key goes to the end.\<close>

fun dict_set :: "('k \<times> 'v) list \<Rightarrow> 'k \<Rightarrow> 'v \<Rightarrow> ('k \<times> 'v) list" where
  "dict_set [] k v = [(k, v)]"
| "dict_set ((k', v') # d) k v =
     (if k' = k then (k, v) # d else (k', v') # dict_set d k v)"

definition account_by_id :: "config \<Rightarrow> string \<Rightarrow> account option" where
  "account_by_id cfg account_id = find (\<lambda>acct. ac_id acct = Some account_id) (cfg_accounts cfg)"

definition category_filter_for :: "config \<Rightarrow> string \<Rightarrow> category_filter option" where
  "category_filter_for cfg account_id =
     (case account_by_id cfg account_id of None \<Rightarrow> None | Some acct \<Rightarrow> ac_category_filter acct)"

definition interest_detection_for :: "config \<Rightarrow> string \<Rightarrow> interest_detection option" where
  "interest_detection_for cfg account_id =
     (case account_by_id cfg account_id of
        None \<Rightarrow> None | Some acct \<Rightarrow> ac_interest_detection acct)"

definition fallback_category :: "config \<Rightarrow> string" where
  "fallback_category cfg =
     (case cfg_fallback_category cfg of None \<Rightarrow> ''uncategorized'' | Some c \<Rightarrow> c)"

text \<open>\<^verbatim>\<open>transfer_name_map\<close>: the upper-cased display names and aliases of every account
  that has an identifier, mapped to that identifier.\<close>

definition add_names :: "string \<Rightarrow> string list \<Rightarrow> (string \<times> string) list \<Rightarrow> (string \<times> string) list"
  where
  "add_names acct_id names name_map =
     foldl (\<lambda>m val. if val \<noteq> [] then dict_set m (upper val) acct_id else m) name_map names"

definition transfer_name_map :: "config \<Rightarrow> (string \<times> string) list" where
  "transfer_name_map cfg =
     foldl (\<lambda>name_map acct.
              case ac_id acct of
                None \<Rightarrow> name_map
              | Some acct_id \<Rightarrow>
                  if acct_id = [] then name_map
                  else add_names acct_id
                         ([ac_name acct, ac_budget_app_name acct] @ ac_transfer_aliases acct)
                         name_map)
       [] (cfg_accounts cfg)"

section \<open>Transfer detection (\<^verbatim>\<open>src/categorize/transfer_detect.py\<close>)\<close>

text \<open>\<^verbatim>\<open>TransferMatch\<close>\<close>

record transfer_match =
  tm_from_account :: string
  tm_to_account :: string
  tm_transfer_type :: string
  tm_pattern :: string

text \<open>\<^verbatim>\<open>detect_transfer\<close>: the first configured pattern that occurs in the description
  and names the account of the transaction on either side.\<close>

fun detect_transfer_rules :: "string \<Rightarrow> string \<Rightarrow> transfer_rule list \<Rightarrow> transfer_match option"
  where
  "detect_transfer_rules desc_upper account_id [] = None"
| "detect_transfer_rules desc_upper account_id (rule # rules) =
     (if tr_pattern_fitid_suffix rule \<noteq> None
        then detect_transfer_rules desc_upper account_id rules
      else if tr_pattern rule = []
        then detect_transfer_rules desc_upper account_id rules
      else if sublist (upper (tr_pattern rule)) desc_upper
        then (if tr_from_account rule = [] \<or> tr_to_account rule = []
                then detect_transfer_rules desc_upper account_id rules
              else if account_id = tr_from_account rule \<or> account_id = tr_to_account rule
                then Some \<lparr>tm_from_account = tr_from_account rule,
                           tm_to_account = tr_to_account rule,
                           tm_transfer_type =
                             (case tr_type rule of
                                None \<Rightarrow> ''transfer''
                              | Some t \<Rightarrow> if t = [] then ''internal-transfer'' else t),
                           tm_pattern = tr_pattern rule\<rparr>
              else detect_transfer_rules desc_upper account_id rules)
      else detect_transfer_rules desc_upper account_id rules)"

definition detect_transfer :: "string \<Rightarrow> string \<Rightarrow> config \<Rightarrow> transfer_match option" where
  "detect_transfer description account_id cfg =
     detect_transfer_rules (upper description) account_id (cfg_transfers cfg)"

text \<open>The regular expression \<^verbatim>\<open>^Transfer\s*:\s*(.+)\<close>, matched at the start of the
  description without regard to case: the result is the text of the group. The group
  starts at the first character after the colon that is not white space and ends before
  the next line feed; when only white space follows the colon, backtracking leaves the
  last character that is not a line feed to the group.\<close>

definition transfer_prefix_group :: "string \<Rightarrow> string option" where
  "transfer_prefix_group description =
     (if upper (take 8 description) \<noteq> ''TRANSFER'' then None
      else case dropWhile is_space (drop 8 description) of
             [] \<Rightarrow> None
           | c # rest \<Rightarrow>
               if c \<noteq> CHR '':'' then None
               else (case dropWhile is_space rest of
                       b # body \<Rightarrow> Some (takeWhile (\<lambda>x. x \<noteq> CHR 0x0A) (b # body))
                     | [] \<Rightarrow>
                         (case dropWhile (\<lambda>x. x = CHR 0x0A) (rev rest) of
                            [] \<Rightarrow> None
                          | w # _ \<Rightarrow> Some [w])))"

text \<open>\<^verbatim>\<open>str.lower()\<close> on ASCII text.\<close>

definition lower_char :: "char \<Rightarrow> char" where
  "lower_char c =
     (let n = (of_char c :: nat) in if 65 \<le> n \<and> n \<le> 90 then char_of (n + 32) else c)"

definition lower :: "string \<Rightarrow> string" where
  "lower s = map lower_char s"

text \<open>\<^verbatim>\<open>_infer_transfer_type\<close>\<close>

definition infer_transfer_type :: "string \<Rightarrow> string \<Rightarrow> config \<Rightarrow> string" where
  "infer_transfer_type account_id other_account_id cfg =
     (let acct_type = lower (case account_by_id cfg account_id of
                               None \<Rightarrow> '''' | Some a \<Rightarrow> ac_account_type a);
          other_type = lower (case account_by_id cfg other_account_id of
                                None \<Rightarrow> '''' | Some a \<Rightarrow> ac_account_type a);
          types = {acct_type, other_type}
      in if ''credit'' \<in> types then ''cc-payment''
         else if ''savings'' \<in> types then ''savings-transfer''
         else if ''loan'' \<in> types then ''loan-payment''
         else ''internal-transfer'')"

text \<open>The resolution of the target name in \<^verbatim>\<open>detect_transfer_by_txn_type\<close>: the exact
  entry of the name table, else the first entry whose name contains the target or is
  contained in it.\<close>

definition resolve_target :: "(string \<times> string) list \<Rightarrow> string \<Rightarrow> string option" where
  "resolve_target name_map target_upper =
     (case map_of name_map target_upper of
        Some cfg_id \<Rightarrow> Some cfg_id
      | None \<Rightarrow>
          map_option snd
            (find (\<lambda>(cfg_name, cfg_id). sublist cfg_name target_upper
                                        \<or> sublist target_upper cfg_name) name_map))"

text \<open>\<^verbatim>\<open>detect_transfer_by_txn_type\<close>\<close>

definition detect_transfer_by_txn_type ::
  "string option \<Rightarrow> string \<Rightarrow> rat \<Rightarrow> string \<Rightarrow> config \<Rightarrow> transfer_match option" where
  "detect_transfer_by_txn_type txn_type description amount account_id cfg =
     (case transfer_prefix_group description of
        None \<Rightarrow> None
      | Some g \<Rightarrow>
          if (case txn_type of
                None \<Rightarrow> False
              | Some ty \<Rightarrow> ty \<noteq> [] \<and> upper ty \<noteq> ''TRANSFER'')
          then None
          else
            (let target_name = strip g in
             case resolve_target (transfer_name_map cfg) (upper target_name) of
               None \<Rightarrow> None
             | Some target_account \<Rightarrow>
                 if target_account = account_id then None
                 else Some \<lparr>tm_from_account =
                              (if amount < 0 then account_id else target_account),
                            tm_to_account =
                              (if amount < 0 then target_account else account_id),
                            tm_transfer_type =
                              infer_transfer_type account_id target_account cfg,
                            tm_pattern = ''txn_type:Transfer : '' @ target_name\<rparr>))"

text \<open>\<^verbatim>\<open>detect_interest\<close>\<close>

definition detect_interest :: "string option \<Rightarrow> string \<Rightarrow> config \<Rightarrow> string option" where
  "detect_interest external_id account_id cfg =
     (case external_id of
        None \<Rightarrow> None
      | Some e \<Rightarrow>
          if e = [] then None
          else (case interest_detection_for cfg account_id of
                  None \<Rightarrow> None
                | Some detection \<Rightarrow>
                    if id_fitid_suffix detection \<noteq> []
                       \<and> suffix (upper (id_fitid_suffix detection)) (upper e)
                    then Some (id_category_id detection)
                    else None))"

section \<open>Merchant, amount and account matchers\<close>

text \<open>\<^verbatim>\<open>MerchantMatch\<close> of \<^verbatim>\<open>src/categorize/merchant_match.py\<close>\<close>

record merchant_match =
  mm_category_id :: string
  mm_confidence :: rat
  mm_merchant_name :: string
  mm_tier :: string

text \<open>\<^verbatim>\<open>_match_against_rules\<close>: the first rule that matches and names a category.\<close>

fun match_against_rules ::
  "string \<Rightarrow> merchant_rule list \<Rightarrow> string \<Rightarrow> rat option \<Rightarrow> merchant_match option" where
  "match_against_rules description [] tier override_confidence = None"
| "match_against_rules description (rule # rules) tier override_confidence =
     (let desc_upper = upper description;
          pattern_upper = upper (mr_pattern rule);
          matched = (if mr_match rule = ''exact'' then desc_upper = pattern_upper
                     else if mr_match rule = ''contains'' then sublist pattern_upper desc_upper
                     else False)
      in if matched
         then (case mr_category_id rule of
                 None \<Rightarrow> match_against_rules description rules tier override_confidence
               | Some category_id \<Rightarrow>
                   if category_id = []
                   then match_against_rules description rules tier override_confidence
                   else Some \<lparr>mm_category_id = category_id,
                              mm_confidence =
                                (case override_confidence of
                                   Some c \<Rightarrow> c
                                 | None \<Rightarrow> mr_consistency rule / 100),
                              mm_merchant_name =
                                (case mr_merchant_name rule of
                                   Some n \<Rightarrow> n | None \<Rightarrow> mr_pattern rule),
                              mm_tier = tier\<rparr>)
         else match_against_rules description rules tier override_confidence)"

definition match_merchant_auto :: "string \<Rightarrow> config \<Rightarrow> merchant_match option" where
  "match_merchant_auto description cfg =
     match_against_rules description (cfg_merchants_auto cfg) ''auto'' (Some 1)"

definition match_merchant_high :: "string \<Rightarrow> config \<Rightarrow> merchant_match option" where
  "match_merchant_high description cfg =
     match_against_rules description (cfg_merchants_high cfg) ''high_confidence'' None"

text \<open>\<^verbatim>\<open>RuleMatch\<close> of \<^verbatim>\<open>src/categorize/amount_rules.py\<close>\<close>

record rule_match =
  rm_category_id :: string
  rm_confidence :: rat
  rm_method :: string
  rm_note :: "string option"

definition CONFIDENCE_MAP :: "string \<Rightarrow> rat" where
  "CONFIDENCE_MAP conf_label =
     (if conf_label = ''high'' then 90 / 100
      else if conf_label = ''medium'' then 75 / 100
      else if conf_label = ''low'' then 60 / 100
      else 75 / 100)"

definition is_whole_dollar :: "rat \<Rightarrow> bool" where
  "is_whole_dollar amount = (\<bar>amount - of_int (py_round amount)\<bar> < 5 / 1000)"

text \<open>The inner loop of \<^verbatim>\<open>match_amount_rule\<close>, over the rules of one rule set.\<close>

fun match_amount_rules :: "rat \<Rightarrow> amount_rule list \<Rightarrow> rule_match option" where
  "match_amount_rules amount [] = None"
| "match_amount_rules amount (rule # rules) =
     (if (if ar_whole_dollar rule then is_whole_dollar amount
          else (case ar_amount_range rule of
                  Some (lo, hi) \<Rightarrow> min lo hi \<le> amount \<and> amount \<le> max lo hi
                | None \<Rightarrow> False))
      then (case ar_category_id rule of
              None \<Rightarrow> match_amount_rules amount rules
            | Some category_id \<Rightarrow>
                if category_id = [] then match_amount_rules amount rules
                else Some \<lparr>rm_category_id = category_id,
                           rm_confidence = CONFIDENCE_MAP (ar_confidence rule),
                           rm_method = ''amount_rule'', rm_note = ar_note rule\<rparr>)
      else match_amount_rules amount rules)"

text \<open>The outer loop of \<^verbatim>\<open>match_amount_rule\<close>, over the rule sets.\<close>

fun match_amount_rule_sets ::
  "string \<Rightarrow> rat \<Rightarrow> string option \<Rightarrow> amount_rule_set list \<Rightarrow> rule_match option" where
  "match_amount_rule_sets desc_upper amount account_id [] = None"
| "match_amount_rule_sets desc_upper amount account_id (rule_set # rule_sets) =
     (if rs_merchant_pattern rule_set = []
        then match_amount_rule_sets desc_upper amount account_id rule_sets
      else if \<not> sublist (upper (rs_merchant_pattern rule_set)) desc_upper
        then match_amount_rule_sets desc_upper amount account_id rule_sets
      else if (case rs_accounts rule_set of
                 None \<Rightarrow> False
               | Some allowed \<Rightarrow>
                   allowed \<noteq> []
                   \<and> (case account_id of None \<Rightarrow> True | Some a \<Rightarrow> a \<notin> set allowed))
        then match_amount_rule_sets desc_upper amount account_id rule_sets
      else (case match_amount_rules amount (rs_rules rule_set) of
              Some m \<Rightarrow> Some m
            | None \<Rightarrow> match_amount_rule_sets desc_upper amount account_id rule_sets))"

definition match_amount_rule ::
  "string \<Rightarrow> rat \<Rightarrow> config \<Rightarrow> string option \<Rightarrow> rule_match option" where
  "match_amount_rule description amount cfg account_id =
     match_amount_rule_sets (upper description) amount account_id (cfg_amount_rules cfg)"

text \<open>\<^verbatim>\<open>match_account_rule\<close>\<close>

fun match_account_rules :: "string \<Rightarrow> account_rule list \<Rightarrow> rule_match option" where
  "match_account_rules account_id [] = None"
| "match_account_rules account_id (rule # rules) =
     (if acr_account rule \<noteq> Some account_id then match_account_rules account_id rules
      else (case acr_non_transfer_category rule of
              Some c \<Rightarrow> Some \<lparr>rm_category_id = c, rm_confidence = 80 / 100,
                              rm_method = ''account_rule'', rm_note = acr_note rule\<rparr>
            | None \<Rightarrow>
                (case acr_default_category rule of
                   Some c \<Rightarrow> Some \<lparr>rm_category_id = c, rm_confidence = 60 / 100,
                                   rm_method = ''account_rule'', rm_note = acr_note rule\<rparr>
                 | None \<Rightarrow> match_account_rules account_id rules)))"

definition match_account_rule :: "string \<Rightarrow> config \<Rightarrow> rule_match option" where
  "match_account_rule account_id cfg = match_account_rules account_id (cfg_account_rules cfg)"

section \<open>Historical matcher (\<^verbatim>\<open>src/categorize/historical.py\<close>)\<close>

text \<open>A row of \<^verbatim>\<open>get_historical_category_counts\<close>: the allocations of the categorized
  transactions of one description, grouped by category and amount, with the number of
  allocations in the group (\<^verbatim>\<open>COUNT(*)\<close>) and the number of those that a user made.\<close>

record hist_row =
  h_category_id :: string
  h_amount :: rat
  h_cnt :: nat
  h_user_cnt :: nat

text \<open>The join of the query, and the query. SQL leaves the order of the groups open; here
  they come in the order of their first member.\<close>

definition hist_join :: "repository \<Rightarrow> string \<Rightarrow> (allocation \<times> transaction) list" where
  "hist_join repo normalized_description =
     concat (map (\<lambda>t. map (\<lambda>a. (a, t))
                         (filter (\<lambda>a. a_transaction_id a = t_id t) (allocations repo)))
               (filter (\<lambda>t. t_normalized_description t = Some normalized_description
                            \<and> t_status t = ''categorized'')
                  (transactions repo)))"

definition get_historical_category_counts :: "repository \<Rightarrow> string \<Rightarrow> hist_row list" where
  "get_historical_category_counts repo normalized_description =
     (let j = hist_join repo normalized_description in
      map (\<lambda>(c, amt).
             \<lparr>h_category_id = c, h_amount = amt,
              h_cnt = length (filter (\<lambda>(a, t). a_category_id a = c \<and> t_amount t = amt) j),
              h_user_cnt = length (filter (\<lambda>(a, t). a_category_id a = c \<and> t_amount t = amt
                                                    \<and> a_source a = ''user'') j)\<rparr>)
          (remdups (map (\<lambda>(a, t). (a_category_id a, t_amount t)) j)))"

text \<open>\<^verbatim>\<open>HistoricalMatch\<close> and the constants of the module.\<close>

record historical_match =
  hm_category_id :: string
  hm_confidence :: rat
  hm_match_level :: string
  hm_match_count :: nat
  hm_agreement_pct :: rat

definition EXACT_MIN_COUNT :: nat where "EXACT_MIN_COUNT = 2"
definition EXACT_CONFIDENCE :: rat where "EXACT_CONFIDENCE = 95 / 100"
definition DESC_MIN_COUNT :: nat where "DESC_MIN_COUNT = 3"
definition DESC_MIN_AGREEMENT :: rat where "DESC_MIN_AGREEMENT = 80 / 100"
definition DESC_CONFIDENCE :: rat where "DESC_CONFIDENCE = 85 / 100"
definition USER_WEIGHT :: rat where "USER_WEIGHT = 15 / 10"
definition AMOUNT_TOLERANCE :: rat where "AMOUNT_TOLERANCE = 1 / 100"

text \<open>Level 1 of \<^verbatim>\<open>match_historical\<close>: the rows within a cent of the amount, when they
  hold at least two allocations and name one category only.\<close>

definition exact_level :: "hist_row list \<Rightarrow> rat \<Rightarrow> historical_match option" where
  "exact_level rows amount =
     (let exact_rows = filter (\<lambda>r. \<bar>h_amount r - amount\<bar> \<le> AMOUNT_TOLERANCE) rows in
      case exact_rows of
        [] \<Rightarrow> None
      | r0 # _ \<Rightarrow>
          (let total = sum_list (map h_cnt exact_rows) in
           if EXACT_MIN_COUNT \<le> total \<and> card (set (map h_category_id exact_rows)) = 1
           then Some \<lparr>hm_category_id = h_category_id r0, hm_confidence = EXACT_CONFIDENCE,
                      hm_match_level = ''exact'', hm_match_count = total,
                      hm_agreement_pct = 1\<rparr>
           else None))"

text \<open>The weight of a row, \<^verbatim>\<open>r["cnt"] + r["user_cnt"] * (USER_WEIGHT - 1)\<close>, and the
  dictionary \<^verbatim>\<open>cat_weights\<close> that the loop over the rows builds.\<close>

definition row_weight :: "hist_row \<Rightarrow> rat" where
  "row_weight r = of_nat (h_cnt r) + of_nat (h_user_cnt r) * (USER_WEIGHT - 1)"

definition cat_weights :: "hist_row list \<Rightarrow> (string \<times> rat) list" where
  "cat_weights rows =
     foldl (\<lambda>cw r. dict_set cw (h_category_id r)
                     ((case map_of cw (h_category_id r) of None \<Rightarrow> 0 | Some w \<Rightarrow> w)
                      + row_weight r))
       [] rows"

text \<open>\<^verbatim>\<open>max(cat_weights, key=cat_weights.get)\<close>: the first key of the greatest value. The
  second argument is the best entry so far.\<close>

fun max_entry :: "(string \<times> rat) list \<Rightarrow> string \<times> rat \<Rightarrow> string \<times> rat" where
  "max_entry [] best = best"
| "max_entry ((c, w) # cw) (bc, bw) =
     (if bw < w then max_entry cw (c, w) else max_entry cw (bc, bw))"

text \<open>Level 2 of \<^verbatim>\<open>match_historical\<close>: the weighted vote over all rows. It is reached
  with at least one row, so the dictionary has an entry.\<close>

definition description_level :: "hist_row list \<Rightarrow> historical_match option" where
  "description_level rows =
     (let total_weighted = sum_list (map row_weight rows);
          total_count = sum_list (map h_cnt rows)
      in if total_count < DESC_MIN_COUNT then None
         else (case cat_weights rows of
                 [] \<Rightarrow> None
               | e # cw \<Rightarrow>
                   (let (best_cat, best_weight) = max_entry cw e;
                        agreement = (if 0 < total_weighted then best_weight / total_weighted
                                     else 0)
                    in if DESC_MIN_AGREEMENT \<le> agreement
                       then Some \<lparr>hm_category_id = best_cat, hm_confidence = DESC_CONFIDENCE,
                                  hm_match_level = ''description'',
                                  hm_match_count = total_count,
                                  hm_agreement_pct = agreement\<rparr>
                       else None)))"

text \<open>\<^verbatim>\<open>match_historical\<close>\<close>

definition match_historical ::
  "string option \<Rightarrow> rat \<Rightarrow> repository option \<Rightarrow> historical_match option" where
  "match_historical normalized_description amount repo =
     (case normalized_description of
        None \<Rightarrow> None
      | Some nd \<Rightarrow>
          if nd = [] then None
          else (case repo of
                  None \<Rightarrow> None
                | Some r \<Rightarrow>
                    (let rows = get_historical_category_counts r nd in
                     if rows = [] then None
                     else (case exact_level rows amount of
                             Some m \<Rightarrow> Some m
                           | None \<Rightarrow> description_level rows))))"

section \<open>Receipt matcher (\<^verbatim>\<open>src/categorize/receipt_lookup.py\<close>)\<close>

text \<open>\<^verbatim>\<open>ParsedReceipt\<close> and \<^verbatim>\<open>ReceiptResult\<close>\<close>

record parsed_receipt =
  pr_items :: "receipt_item list"
  pr_order_total :: "rat option"
  pr_shipment_total :: "rat option"

record receipt_result =
  rr_matched :: bool
  rr_items :: "receipt_item list"
  rr_gmail_message_id :: "string option"
  rr_match_type :: "string option"
  rr_confidence :: rat

definition APPLE_TOLERANCE :: rat where "APPLE_TOLERANCE = 1"
definition AMAZON_TOLERANCE_PCT :: rat where "AMAZON_TOLERANCE_PCT = 5 / 100"

text \<open>The index subsets that the two nested loops of \<^verbatim>\<open>_resolve_apple\<close> and of
  \<^verbatim>\<open>_subset_sum_match\<close> visit, in the order of the visit: by size from 1 to \<open>n\<close>, the
  subsets of one size in the order of \<^verbatim>\<open>itertools.combinations\<close>.\<close>

definition subsets_by_size :: "nat \<Rightarrow> nat list list" where
  "subsets_by_size n = concat (map (combinations [0..<n]) [1..<n + 1])"

text \<open>\<^verbatim>\<open>_resolve_apple\<close>\<close>

definition resolve_apple ::
  "transaction \<Rightarrow> receipt_item list \<Rightarrow> (string \<times> string) list \<Rightarrow> receipt_result option" where
  "resolve_apple txn items email_bodies =
     (let charge = \<bar>t_amount txn\<bar>;
          item_amounts = map i_amount items
      in case find (\<lambda>combo. \<bar>subset_total item_amounts combo - charge\<bar> \<le> APPLE_TOLERANCE)
                (subsets_by_size (length items)) of
           Some combo \<Rightarrow>
             Some \<lparr>rr_matched = True, rr_items = map (\<lambda>i. items ! i) combo,
                   rr_gmail_message_id =
                     (case email_bodies of [] \<Rightarrow> None | (msg_id, body) # _ \<Rightarrow> Some msg_id),
                   rr_match_type = Some ''apple_subset_sum'', rr_confidence = 85 / 100\<rparr>
         | None \<Rightarrow> None)"

text \<open>Division raises \<^verbatim>\<open>ZeroDivisionError\<close> on a zero divisor; the functions that divide
  return the error or their value.\<close>

datatype py_error = ZeroDivisionError

definition py_div :: "rat \<Rightarrow> rat \<Rightarrow> py_error + rat" where
  "py_div a b = (if b = 0 then Inl ZeroDivisionError else Inr (a / b))"

text \<open>The test \<^verbatim>\<open>x > 0 and abs(x - charge) / charge <= AMAZON_TOLERANCE_PCT\<close>; the division
  is evaluated only when \<open>x\<close> is positive.\<close>

definition positive_within_pct :: "rat \<Rightarrow> rat \<Rightarrow> py_error + bool" where
  "positive_within_pct x charge =
     (if 0 < x
      then (case py_div \<bar>x - charge\<bar> charge of
              Inl e \<Rightarrow> Inl e
            | Inr q \<Rightarrow> Inr (q \<le> AMAZON_TOLERANCE_PCT))
      else Inr False)"

text \<open>The subset loop of \<^verbatim>\<open>_subset_sum_match\<close>: the first subset whose total passes the
  test.\<close>

fun first_subset_within ::
  "rat \<Rightarrow> rat list \<Rightarrow> nat list list \<Rightarrow> py_error + nat list option" where
  "first_subset_within charge item_amounts [] = Inr None"
| "first_subset_within charge item_amounts (combo # combos) =
     (case positive_within_pct (subset_total item_amounts combo) charge of
        Inl e \<Rightarrow> Inl e
      | Inr True \<Rightarrow> Inr (Some combo)
      | Inr False \<Rightarrow> first_subset_within charge item_amounts combos)"

text \<open>\<^verbatim>\<open>_subset_sum_match\<close>\<close>

definition subset_sum_match ::
  "rat \<Rightarrow> receipt_item list \<Rightarrow> string option \<Rightarrow> rat \<Rightarrow> py_error + receipt_result option"
  where
  "subset_sum_match charge items msg_id confidence =
     (case positive_within_pct (sum_list (map i_amount items)) charge of
        Inl e \<Rightarrow> Inl e
      | Inr True \<Rightarrow>
          Inr (Some \<lparr>rr_matched = True, rr_items = items, rr_gmail_message_id = msg_id,
                     rr_match_type = Some ''amazon_shipment'', rr_confidence = confidence\<rparr>)
      | Inr False \<Rightarrow>
          (case first_subset_within charge (map i_amount items)
                  (subsets_by_size (length items)) of
             Inl e \<Rightarrow> Inl e
           | Inr (Some combo) \<Rightarrow>
               Inr (Some \<lparr>rr_matched = True, rr_items = map (\<lambda>i. items ! i) combo,
                          rr_gmail_message_id = msg_id,
                          rr_match_type = Some ''amazon_subset_sum'',
                          rr_confidence = confidence\<rparr>)
           | Inr None \<Rightarrow> Inr None))"

text \<open>Phases 1 and 2 of \<^verbatim>\<open>_resolve_amazon\<close>: the first message whose declared total
  (selected by \<open>declared\<close>) is present, positive and within the tolerance.\<close>

fun total_phase ::
  "(parsed_receipt \<Rightarrow> rat option) \<Rightarrow> string \<Rightarrow> rat \<Rightarrow> rat \<Rightarrow> (string \<times> parsed_receipt) list
     \<Rightarrow> py_error + receipt_result option" where
  "total_phase declared match_type confidence charge [] = Inr None"
| "total_phase declared match_type confidence charge ((msg_id, parsed) # receipts) =
     (case declared parsed of
        None \<Rightarrow> total_phase declared match_type confidence charge receipts
      | Some t \<Rightarrow>
          if t \<noteq> 0 \<and> 0 < t
          then (case py_div \<bar>t - charge\<bar> charge of
                  Inl e \<Rightarrow> Inl e
                | Inr q \<Rightarrow>
                    if q \<le> AMAZON_TOLERANCE_PCT
                    then Inr (Some \<lparr>rr_matched = True, rr_items = pr_items parsed,
                                     rr_gmail_message_id = Some msg_id,
                                     rr_match_type = Some match_type,
                                     rr_confidence = confidence\<rparr>)
                    else total_phase declared match_type confidence charge receipts)
          else total_phase declared match_type confidence charge receipts)"

text \<open>Phase 3: the first message whose items match.\<close>

fun items_phase :: "rat \<Rightarrow> (string \<times> parsed_receipt) list \<Rightarrow> py_error + receipt_result option"
  where
  "items_phase charge [] = Inr None"
| "items_phase charge ((msg_id, parsed) # receipts) =
     (if pr_items parsed = [] then items_phase charge receipts
      else (case subset_sum_match charge (pr_items parsed) (Some msg_id) (80 / 100) of
              Inl e \<Rightarrow> Inl e
            | Inr (Some result) \<Rightarrow> Inr (Some result)
            | Inr None \<Rightarrow> items_phase charge receipts))"

text \<open>Phase 4: the items of all messages together, when there is more than one message.\<close>

definition cross_phase :: "rat \<Rightarrow> (string \<times> parsed_receipt) list \<Rightarrow> py_error + receipt_result option"
  where
  "cross_phase charge receipts =
     (if 1 < length receipts
      then (let all_items = concat (map (\<lambda>(msg_id, parsed). pr_items parsed) receipts) in
            if all_items \<noteq> []
            then subset_sum_match charge all_items
                   (case receipts of [] \<Rightarrow> None | (msg_id, parsed) # _ \<Rightarrow> Some msg_id)
                   (75 / 100)
            else Inr None)
      else Inr None)"

text \<open>\<^verbatim>\<open>_resolve_amazon\<close>; \<open>receipts\<close> is the dictionary from message identifier to parsed
  receipt, in insertion order.\<close>

definition resolve_amazon ::
  "transaction \<Rightarrow> (string \<times> parsed_receipt) list \<Rightarrow> py_error + receipt_result option" where
  "resolve_amazon txn receipts =
     (let charge = \<bar>t_amount txn\<bar> in
      if charge = 0 then Inr None
      else (case total_phase pr_shipment_total ''amazon_shipment_total'' (90 / 100) charge
                   receipts of
              Inl e \<Rightarrow> Inl e
            | Inr (Some result) \<Rightarrow> Inr (Some result)
            | Inr None \<Rightarrow>
          (case total_phase pr_order_total ''amazon_order_total'' (85 / 100) charge
                  receipts of
              Inl e \<Rightarrow> Inl e
            | Inr (Some result) \<Rightarrow> Inr (Some result)
            | Inr None \<Rightarrow>
          (case items_phase charge receipts of
              Inl e \<Rightarrow> Inl e
            | Inr (Some result) \<Rightarrow> Inr (Some result)
            | Inr None \<Rightarrow> cross_phase charge receipts))))"

section \<open>Categorization pipeline (\<^verbatim>\<open>src/categorize/pipeline.py\<close>)\<close>

text \<open>\<^verbatim>\<open>_is_compatible\<close> and \<^verbatim>\<open>_apply_filter\<close>\<close>

definition is_compatible :: "string \<Rightarrow> category_filter \<Rightarrow> bool" where
  "is_compatible category_id cat_filter =
     (list_ex (\<lambda>p. prefix p category_id) (cf_compatible_prefixes cat_filter)
      \<or> category_id \<in> set (cf_compatible_ids cat_filter))"

definition apply_filter :: "string \<Rightarrow> category_filter option \<Rightarrow> string" where
  "apply_filter category_id cat_filter =
     (case cat_filter of
        None \<Rightarrow> category_id
      | Some f \<Rightarrow>
          if is_compatible category_id f then category_id
          else (case cf_default_category f of None \<Rightarrow> category_id | Some d \<Rightarrow> d))"

text \<open>\<^verbatim>\<open>CategorizeResult\<close>, and the result of the AI step
  (\<^verbatim>\<open>ClaudeCategorizationResult\<close> of \<^verbatim>\<open>claude_ai.py\<close>).\<close>

record categorize_result =
  cr_category_id :: string
  cr_confidence :: rat
  cr_method :: string
  cr_is_transfer :: bool
  cr_transfer_type :: "string option"
  cr_from_account :: "string option"
  cr_to_account :: "string option"
  cr_receipt_result :: "receipt_result option"

record claude_categorization_result =
  cc_category_id :: string
  cc_confidence :: rat
  cc_reasoning :: string

definition plain_result :: "string \<Rightarrow> rat \<Rightarrow> string \<Rightarrow> categorize_result" where
  "plain_result category_id confidence method =
     \<lparr>cr_category_id = category_id, cr_confidence = confidence, cr_method = method,
      cr_is_transfer = False, cr_transfer_type = None, cr_from_account = None,
      cr_to_account = None, cr_receipt_result = None\<rparr>"

text \<open>The category of a detected transfer: the entry of \<^verbatim>\<open>transfer_categories\<close> for its
  type, else the entry for \<open>internal-transfer\<close>, else the fallback category, and
  \<open>uncategorized\<close> when that is empty.\<close>

definition transfer_category :: "config \<Rightarrow> string \<Rightarrow> string" where
  "transfer_category cfg transfer_type =
     (case map_of (cfg_transfer_categories cfg) transfer_type of
        Some cat_id \<Rightarrow> cat_id
      | None \<Rightarrow>
          (let c = (case map_of (cfg_transfer_categories cfg) ''internal-transfer'' of
                      Some cat_id \<Rightarrow> cat_id
                    | None \<Rightarrow> fallback_category cfg)
           in if c = [] then ''uncategorized'' else c))"

definition transfer_result :: "config \<Rightarrow> transfer_match \<Rightarrow> string \<Rightarrow> categorize_result" where
  "transfer_result cfg transfer transfer_method =
     \<lparr>cr_category_id = transfer_category cfg (tm_transfer_type transfer),
      cr_confidence = 1, cr_method = transfer_method, cr_is_transfer = True,
      cr_transfer_type = Some (tm_transfer_type transfer),
      cr_from_account = Some (tm_from_account transfer),
      cr_to_account = Some (tm_to_account transfer), cr_receipt_result = None\<rparr>"

text \<open>The candidate of step 6: the category of the first item of the receipt, the
  fallback category when there is no item or the item has no category.\<close>

definition receipt_primary_cat :: "receipt_result \<Rightarrow> string \<Rightarrow> string" where
  "receipt_primary_cat receipt_result fallback =
     (case rr_items receipt_result of
        [] \<Rightarrow> fallback
      | item # _ \<Rightarrow>
          (case i_category_id item of
             None \<Rightarrow> fallback
           | Some c \<Rightarrow> if c = [] then fallback else c))"

text \<open>Steps 2 to 8 of \<^verbatim>\<open>categorize_transaction\<close>. The two collaborators are callbacks:
  \<open>receipt_lookup\<close> stands for the method \<^verbatim>\<open>resolve\<close> of the \<^verbatim>\<open>ReceiptLookup\<close> object,
  \<open>claude_fn\<close> for \<^verbatim>\<open>claude_categorize_single\<close> with the text-generation function; both
  are absent when the argument of the source is \<^verbatim>\<open>None\<close>. What they write to the
  repository (usage counters, the receipt-lookup status) is not part of the result.\<close>

definition categorize_rules ::
  "transaction \<Rightarrow> config \<Rightarrow> (transaction \<Rightarrow> receipt_result option) option
     \<Rightarrow> (transaction \<Rightarrow> claude_categorization_result option) option \<Rightarrow> repository option
     \<Rightarrow> categorize_result" where
  "categorize_rules txn cfg receipt_lookup claude_fn repo =
     (let desc = t_raw_description txn;
          cat_filter = category_filter_for cfg (t_account_id txn);
          fallback = fallback_category cfg
      in
      case match_merchant_auto desc cfg of
        Some merchant \<Rightarrow>
          plain_result (apply_filter (mm_category_id merchant) cat_filter)
            (mm_confidence merchant) ''merchant_auto''
      | None \<Rightarrow>
      (case (if repo \<noteq> None \<and> truthy (t_normalized_description txn)
             then match_historical (t_normalized_description txn) (t_amount txn) repo
             else None) of
        Some hist \<Rightarrow>
          plain_result (apply_filter (hm_category_id hist) cat_filter)
            (hm_confidence hist) ''historical_pattern''
      | None \<Rightarrow>
      (case match_amount_rule desc (t_amount txn) cfg (Some (t_account_id txn)) of
        Some amount_match \<Rightarrow>
          plain_result (apply_filter (rm_category_id amount_match) cat_filter)
            (rm_confidence amount_match) ''amount_rule''
      | None \<Rightarrow>
      (case match_account_rule (t_account_id txn) cfg of
        Some account_match \<Rightarrow>
          plain_result (apply_filter (rm_category_id account_match) cat_filter)
            (rm_confidence account_match) ''account_rule''
      | None \<Rightarrow>
      (case match_merchant_high desc cfg of
        Some high_match \<Rightarrow>
          plain_result (apply_filter (mm_category_id high_match) cat_filter)
            (mm_confidence high_match) ''merchant_high''
      | None \<Rightarrow>
      (case (case receipt_lookup of
               None \<Rightarrow> None
             | Some resolve \<Rightarrow>
                 (case resolve txn of
                    None \<Rightarrow> None
                  | Some rr \<Rightarrow> if rr_matched rr then Some rr else None)) of
        Some receipt_result \<Rightarrow>
          (plain_result
             (apply_filter (receipt_primary_cat receipt_result fallback) cat_filter)
             (rr_confidence receipt_result) ''gmail_receipt'')
          \<lparr>cr_receipt_result := Some receipt_result\<rparr>
      | None \<Rightarrow>
      (case (case claude_fn of
               None \<Rightarrow> None
             | Some categorize_single \<Rightarrow>
                 if repo \<noteq> None then categorize_single txn else None) of
        Some claude_result \<Rightarrow>
          plain_result (apply_filter (cc_category_id claude_result) cat_filter)
            (cc_confidence claude_result) ''claude_ai''
      | None \<Rightarrow> plain_result fallback 0 ''manual_review'')))))))"

text \<open>\<^verbatim>\<open>categorize_transaction\<close>: step 1 (transfer by pattern, then by transaction type),
  step 1b (interest by identifier suffix), then the steps above.\<close>

definition categorize_transaction ::
  "transaction \<Rightarrow> config \<Rightarrow> (transaction \<Rightarrow> receipt_result option) option
     \<Rightarrow> (transaction \<Rightarrow> claude_categorization_result option) option \<Rightarrow> repository option
     \<Rightarrow> categorize_result" where
  "categorize_transaction txn cfg receipt_lookup claude_fn repo =
     (case detect_transfer (t_raw_description txn) (t_account_id txn) cfg of
        Some transfer \<Rightarrow> transfer_result cfg transfer ''transfer''
      | None \<Rightarrow>
      (case detect_transfer_by_txn_type (t_txn_type txn) (t_raw_description txn)
              (t_amount txn) (t_account_id txn) cfg of
        Some transfer \<Rightarrow> transfer_result cfg transfer ''transfer_inferred''
      | None \<Rightarrow>
      (case detect_interest (t_external_id txn) (t_account_id txn) cfg of
        Some interest \<Rightarrow> plain_result interest 1 ''interest_detection''
      | None \<Rightarrow> categorize_rules txn cfg receipt_lookup claude_fn repo)))"

text \<open>The candidate category of the step that decides: what the step proposes before
  any filter. It follows the same chain of steps, and returns the proposal and the name
  of the step.\<close>

definition rules_candidate ::
  "transaction \<Rightarrow> config \<Rightarrow> (transaction \<Rightarrow> receipt_result option) option
     \<Rightarrow> (transaction \<Rightarrow> claude_categorization_result option) option \<Rightarrow> repository option
     \<Rightarrow> string \<times> string" where
  "rules_candidate txn cfg receipt_lookup claude_fn repo =
     (let desc = t_raw_description txn;
          fallback = fallback_category cfg
      in
      case match_merchant_auto desc cfg of
        Some merchant \<Rightarrow> (mm_category_id merchant, ''merchant_auto'')
      | None \<Rightarrow>
      (case (if repo \<noteq> None \<and> truthy (t_normalized_description txn)
             then match_historical (t_normalized_description txn) (t_amount txn) repo
             else None) of
        Some hist \<Rightarrow> (hm_category_id hist, ''historical_pattern'')
      | None \<Rightarrow>
      (case match_amount_rule desc (t_amount txn) cfg (Some (t_account_id txn)) of
        Some amount_match \<Rightarrow> (rm_category_id amount_match, ''amount_rule'')
      | None \<Rightarrow>
      (case match_account_rule (t_account_id txn) cfg of
        Some account_match \<Rightarrow> (rm_category_id account_match, ''account_rule'')
      | None \<Rightarrow>
      (case match_merchant_high desc cfg of
        Some high_match \<Rightarrow> (mm_category_id high_match, ''merchant_high'')
      | None \<Rightarrow>
      (case (case receipt_lookup of
               None \<Rightarrow> None
             | Some resolve \<Rightarrow>
                 (case resolve txn of
                    None \<Rightarrow> None
                  | Some rr \<Rightarrow> if rr_matched rr then Some rr else None)) of
        Some receipt_result \<Rightarrow>
          (receipt_primary_cat receipt_result fallback, ''gmail_receipt'')
      | None \<Rightarrow>
      (case (case claude_fn of
               None \<Rightarrow> None
             | Some categorize_single \<Rightarrow>
                 if repo \<noteq> None then categorize_single txn else None) of
        Some claude_result \<Rightarrow> (cc_category_id claude_result, ''claude_ai'')
      | None \<Rightarrow> (fallback, ''manual_review''))))))))"

definition step_candidate ::
  "transaction \<Rightarrow> config \<Rightarrow> (transaction \<Rightarrow> receipt_result option) option
     \<Rightarrow> (transaction \<Rightarrow> claude_categorization_result option) option \<Rightarrow> repository option
     \<Rightarrow> string \<times> string" where
  "step_candidate txn cfg receipt_lookup claude_fn repo =
     (case detect_transfer (t_raw_description txn) (t_account_id txn) cfg of
        Some transfer \<Rightarrow> (transfer_category cfg (tm_transfer_type transfer), ''transfer'')
      | None \<Rightarrow>
      (case detect_transfer_by_txn_type (t_txn_type txn) (t_raw_description txn)
              (t_amount txn) (t_account_id txn) cfg of
        Some transfer \<Rightarrow>
          (transfer_category cfg (tm_transfer_type transfer), ''transfer_inferred'')
      | None \<Rightarrow>
      (case detect_interest (t_external_id txn) (t_account_id txn) cfg of
        Some interest \<Rightarrow> (interest, ''interest_detection'')
      | None \<Rightarrow> rules_candidate txn cfg receipt_lookup claude_fn repo)))"

definition unfiltered_methods :: "string list" where
  "unfiltered_methods = [''transfer'', ''transfer_inferred'', ''interest_detection'',
                         ''manual_review'']"

section \<open>Applying a result\<close>

text \<open>The writes that the pipeline makes to the repository, each committed on its own
  (every write method of \<^verbatim>\<open>Repository\<close> ends with \<^verbatim>\<open>commit()\<close>). An execution is the
  sequence of its writes; an execution that is interrupted has made a prefix of them.\<close>

datatype db_write =
  InsertAllocation allocation
| UpdateTransactionStatus string string "rat option" "string option"
| InsertTransfer transfer
| InsertReceiptMatch receipt_match

fun apply_write :: "repository \<Rightarrow> db_write \<Rightarrow> repository" where
  "apply_write repo (InsertAllocation alloc) = insert_allocation repo alloc"
| "apply_write repo (UpdateTransactionStatus txn_id status confidence method) =
     update_transaction_status repo txn_id status confidence method"
| "apply_write repo (InsertTransfer xfer) = insert_transfer repo xfer"
| "apply_write repo (InsertReceiptMatch m) = insert_receipt_match repo m"

definition run_writes :: "repository \<Rightarrow> db_write list \<Rightarrow> repository" where
  "run_writes repo ws = foldl apply_write repo ws"

text \<open>\<^verbatim>\<open>_try_link_transfer\<close>: the writes it makes on the repository \<open>repo\<close>. The check for
  an existing transfer comes first; then the candidates are searched and the nearest
  one is linked.\<close>

definition try_link_transfer_writes ::
  "(string \<Rightarrow> rat option) \<Rightarrow> repository \<Rightarrow> transaction \<Rightarrow> categorize_result \<Rightarrow> db_write list"
  where
  "try_link_transfer_writes julianday repo txn result =
     (case get_transfer_by_transaction repo (t_id txn) of
        Some existing \<Rightarrow> []
      | None \<Rightarrow>
          (case find_transfer_candidates julianday repo txn 5 of
             [] \<Rightarrow> []
           | counterpart # _ \<Rightarrow>
               (let txn_is_from =
                      (if truthy (cr_from_account result) \<and> truthy (cr_to_account result)
                       then (if Some (t_account_id txn) = cr_from_account result then True
                             else if Some (t_account_id txn) = cr_to_account result then False
                             else t_amount txn < 0)
                       else t_amount txn < 0)
                in [InsertTransfer
                      \<lparr>x_from_transaction_id =
                         (if txn_is_from then t_id txn else t_id counterpart),
                       x_to_transaction_id =
                         (if txn_is_from then t_id counterpart else t_id txn),
                       x_transfer_type =
                         (case cr_transfer_type result of
                            None \<Rightarrow> ''internal-transfer''
                          | Some ty \<Rightarrow> if ty = [] then ''internal-transfer'' else ty),
                       x_match_method = ''pattern_auto_link'',
                       x_confidence = Some (9 / 10)\<rparr>])))"

definition try_link_transfer ::
  "(string \<Rightarrow> rat option) \<Rightarrow> repository \<Rightarrow> transaction \<Rightarrow> categorize_result \<Rightarrow> repository"
  where
  "try_link_transfer julianday repo txn result =
     run_writes repo (try_link_transfer_writes julianday repo txn result)"

text \<open>\<^verbatim>\<open>ReceiptLookup.apply_result\<close>: the receipt-match record, then (unless the
  transaction has allocations already) one allocation for each item, then the status.\<close>

definition item_allocation :: "transaction \<Rightarrow> receipt_result \<Rightarrow> receipt_item \<Rightarrow> allocation" where
  "item_allocation txn result item =
     \<lparr>a_transaction_id = t_id txn,
      a_category_id = (case i_category_id item of
                         None \<Rightarrow> ''uncategorized''
                       | Some c \<Rightarrow> if c = [] then ''uncategorized'' else c),
      a_amount = (if t_amount txn < 0 then - 1 else 1) * \<bar>i_amount item\<bar>,
      a_memo = Some (i_name item), a_tags = None, a_source = ''gmail_receipt'',
      a_confidence = Some (rr_confidence result)\<rparr>"

definition apply_result_writes ::
  "repository \<Rightarrow> transaction \<Rightarrow> receipt_result \<Rightarrow> db_write list" where
  "apply_result_writes repo txn result =
     (if \<not> rr_matched result \<or> rr_items result = [] then []
      else
        InsertReceiptMatch
          \<lparr>m_transaction_id = t_id txn,
           m_gmail_message_id = (case rr_gmail_message_id result of
                                   None \<Rightarrow> '''' | Some m \<Rightarrow> m),
           m_match_type = (case rr_match_type result of None \<Rightarrow> '''' | Some m \<Rightarrow> m),
           m_matched_items = rr_items result,
           m_confidence = Some (rr_confidence result)\<rparr>
        # (if get_allocations_by_transaction repo (t_id txn) \<noteq> [] then []
           else map (\<lambda>item. InsertAllocation (item_allocation txn result item))
                  (rr_items result)
                @ [UpdateTransactionStatus (t_id txn) ''categorized''
                     (Some (rr_confidence result)) (Some ''gmail_receipt'')]))"

definition apply_result :: "repository \<Rightarrow> transaction \<Rightarrow> receipt_result \<Rightarrow> repository" where
  "apply_result repo txn result = run_writes repo (apply_result_writes repo txn result)"

text \<open>\<^verbatim>\<open>apply_categorization\<close>: a receipt result goes to \<^verbatim>\<open>apply_result\<close> when the receipt
  lookup is there (\<open>has_receipt_lookup\<close>); any other result inserts the allocation, then
  updates the status, and a transfer result then tries to link the counterpart.\<close>

definition result_allocation :: "transaction \<Rightarrow> categorize_result \<Rightarrow> allocation" where
  "result_allocation txn result =
     \<lparr>a_transaction_id = t_id txn, a_category_id = cr_category_id result,
      a_amount = t_amount txn, a_memo = None, a_tags = None,
      a_source = ''auto'', a_confidence = Some (cr_confidence result)\<rparr>"

definition result_status :: "categorize_result \<Rightarrow> string" where
  "result_status result =
     (if cr_method result \<noteq> ''manual_review'' then ''categorized'' else ''flagged'')"

definition allocation_then_status :: "transaction \<Rightarrow> categorize_result \<Rightarrow> db_write list" where
  "allocation_then_status txn result =
     [InsertAllocation (result_allocation txn result),
      UpdateTransactionStatus (t_id txn) (result_status result) (Some (cr_confidence result))
        (Some (cr_method result))]"

definition apply_categorization_writes ::
  "(string \<Rightarrow> rat option) \<Rightarrow> repository \<Rightarrow> transaction \<Rightarrow> categorize_result \<Rightarrow> bool
     \<Rightarrow> db_write list" where
  "apply_categorization_writes julianday repo txn result has_receipt_lookup =
     (case (if cr_method result = ''gmail_receipt'' \<and> has_receipt_lookup
            then cr_receipt_result result else None) of
        Some receipt_result \<Rightarrow> apply_result_writes repo txn receipt_result
      | None \<Rightarrow>
          allocation_then_status txn result
          @ (if cr_is_transfer result \<and> truthy (cr_transfer_type result)
             then try_link_transfer_writes julianday
                    (run_writes repo (allocation_then_status txn result)) txn result
             else []))"

definition apply_categorization ::
  "(string \<Rightarrow> rat option) \<Rightarrow> repository \<Rightarrow> transaction \<Rightarrow> categorize_result \<Rightarrow> bool
     \<Rightarrow> repository" where
  "apply_categorization julianday repo txn result has_receipt_lookup =
     run_writes repo (apply_categorization_writes julianday repo txn result has_receipt_lookup)"

text \<open>The state that an execution interrupted after \<open>k\<close> writes leaves behind.\<close>

definition interrupted_after ::
  "nat \<Rightarrow> (string \<Rightarrow> rat option) \<Rightarrow> repository \<Rightarrow> transaction \<Rightarrow> categorize_result \<Rightarrow> bool
     \<Rightarrow> repository" where
  "interrupted_after k julianday repo txn result has_receipt_lookup =
     run_writes repo
       (take k (apply_categorization_writes julianday repo txn result has_receipt_lookup))"

text \<open>The transactions of a repository that are in the categorized state and have no
  allocation.\<close>

definition categorized_without_allocation :: "repository \<Rightarrow> transaction list" where
  "categorized_without_allocation repo =
     filter (\<lambda>t. t_status t = ''categorized''
                \<and> get_allocations_by_transaction repo (t_id t) = [])
       (transactions repo)"

definition status_of :: "repository \<Rightarrow> string \<Rightarrow> string list" where
  "status_of repo txn_id = map t_status (filter (\<lambda>t. t_id t = txn_id) (transactions repo))"

text \<open>The number of transfer rows that a transaction takes part in, as either side.\<close>

definition transfer_count :: "repository \<Rightarrow> string \<Rightarrow> nat" where
  "transfer_count repo txn_id =
     length (filter (\<lambda>x. x_from_transaction_id x = txn_id \<or> x_to_transaction_id x = txn_id)
               (transfers repo))"

section \<open>Example data\<close>

text \<open>A bank row already in the repository, with a bank identifier, and incoming rows on
  the same account, day and amount: one from the bank file with the same identifier and
  a similar description, one from the budget application without identifier.\<close>

definition ex_bank_row :: transaction where
  "ex_bank_row =
     \<lparr>t_id = ''t1'', t_account_id = ''chk'', t_date = ''2024-01-15'', t_amount = - 25,
      t_raw_description = ''AMAZON.COM*MB2KR7PH0'', t_import_id = ''imp0'',
      t_import_hash = ''chk|2024-01-15|-25.00|AMAZON.COM*MB2KR7PH0'',
      t_dedup_key = ''chk:2024-01-15:-2500'',
      t_normalized_description = Some ''AMAZON.COMMB2KR7PH0'', t_memo = None,
      t_txn_type = Some ''DEBIT'', t_check_num = None, t_balance = None,
      t_external_id = Some ''F1'', t_source = ''bank'', t_status = ''pending'',
      t_confidence = None, t_categorization_method = None,
      t_receipt_lookup_status = None\<rparr>"

definition ex_repo :: repository where
  "ex_repo = \<lparr>transactions = [ex_bank_row], allocations = [], transfers = [],
               receipt_matches = []\<rparr>"

definition ex_raw_bank :: raw_transaction where
  "ex_raw_bank =
     \<lparr>r_date = ''2024-01-15'', r_amount = - 25,
      r_raw_description = ''AMAZON.COM*MB2KR7PH1'', r_account_id = ''chk'', r_memo = None,
      r_txn_type = Some ''DEBIT'', r_external_id = Some ''F1'', r_check_num = None,
      r_balance = None, r_budget_app_category_id = None\<rparr>"

definition ex_raw_budget :: raw_transaction where
  "ex_raw_budget =
     \<lparr>r_date = ''2024-01-15'', r_amount = - 25, r_raw_description = ''Amazon'',
      r_account_id = ''chk'', r_memo = None, r_txn_type = None, r_external_id = None,
      r_check_num = None, r_balance = None, r_budget_app_category_id = None\<rparr>"

text \<open>A transaction of amount zero, and an Amazon message that declares a shipment total
  and one item.\<close>

definition ex_zero_txn :: transaction where
  "ex_zero_txn = ex_bank_row\<lparr>t_amount := 0\<rparr>"

definition ex_amazon_receipts :: "(string \<times> parsed_receipt) list" where
  "ex_amazon_receipts =
     [(''msg1'', \<lparr>pr_items = [\<lparr>i_name = ''Cable'', i_amount = 10, i_category_id = None\<rparr>],
                  pr_order_total = Some 10, pr_shipment_total = Some 10\<rparr>)]"

text \<open>A withdrawal \<open>x\<close> of 500 from the checking account and two deposits \<open>y\<close> and \<open>z\<close> of
  500 on other accounts on the same day; a repository where \<open>x\<close> is linked to \<open>y\<close>
  already, and one with no transfer yet.\<close>

definition ex_x :: transaction where
  "ex_x = ex_bank_row\<lparr>t_id := ''x'', t_amount := - 500,
                       t_raw_description := ''TRANSFER TO SAVINGS''\<rparr>"

definition ex_y :: transaction where
  "ex_y = ex_bank_row\<lparr>t_id := ''y'', t_account_id := ''sav'', t_amount := 500,
                       t_raw_description := ''TRANSFER FROM CHECKING''\<rparr>"

definition ex_z :: transaction where
  "ex_z = ex_bank_row\<lparr>t_id := ''z'', t_account_id := ''sav2'', t_amount := 500,
                       t_raw_description := ''TRANSFER FROM CHECKING''\<rparr>"

definition ex_link_xy :: transfer where
  "ex_link_xy = \<lparr>x_from_transaction_id = ''x'', x_to_transaction_id = ''y'',
                  x_transfer_type = ''savings-transfer'',
                  x_match_method = ''pattern_auto_link'', x_confidence = Some (9 / 10)\<rparr>"

definition ex_linked_repo :: repository where
  "ex_linked_repo = \<lparr>transactions = [ex_x, ex_y, ex_z], allocations = [],
                      transfers = [ex_link_xy], receipt_matches = []\<rparr>"

definition ex_unlinked_repo :: repository where
  "ex_unlinked_repo = \<lparr>transactions = [ex_x, ex_y, ex_z], allocations = [],
                        transfers = [], receipt_matches = []\<rparr>"

definition ex_transfer_result :: categorize_result where
  "ex_transfer_result =
     \<lparr>cr_category_id = ''xfer-savings'', cr_confidence = 1, cr_method = ''transfer'',
      cr_is_transfer = True, cr_transfer_type = Some ''savings-transfer'',
      cr_from_account = Some ''chk'', cr_to_account = Some ''sav'',
      cr_receipt_result = None\<rparr>"

definition ex_julianday :: "string \<Rightarrow> rat option" where
  "ex_julianday d = (if d = ''2024-01-15'' then Some 2460325 else None)"

text \<open>A configuration with a personal checking account, a savings account and a business
  account that admits the categories with prefix \<open>biz-\<close> only; one transfer pattern
  between the business account and the savings account, and one merchant rule.\<close>

definition ex_acct_chk :: account where
  "ex_acct_chk =
     \<lparr>ac_id = Some ''chk'', ac_name = ''Checking'', ac_budget_app_name = '''',
      ac_transfer_aliases = [], ac_account_type = ''checking'', ac_category_filter = None,
      ac_interest_detection = None\<rparr>"

definition ex_acct_sav :: account where
  "ex_acct_sav =
     \<lparr>ac_id = Some ''sav'', ac_name = ''Savings'', ac_budget_app_name = '''',
      ac_transfer_aliases = [], ac_account_type = ''savings'', ac_category_filter = None,
      ac_interest_detection = None\<rparr>"

definition ex_biz_filter :: category_filter where
  "ex_biz_filter =
     \<lparr>cf_default_category = Some ''biz-other'', cf_compatible_prefixes = [''biz-''],
      cf_compatible_ids = []\<rparr>"

definition ex_acct_biz :: account where
  "ex_acct_biz =
     \<lparr>ac_id = Some ''biz'', ac_name = ''Business'', ac_budget_app_name = '''',
      ac_transfer_aliases = [], ac_account_type = ''checking'',
      ac_category_filter = Some ex_biz_filter,
      ac_interest_detection =
        Some \<lparr>id_fitid_suffix = ''INT'', id_category_id = ''interest''\<rparr>\<rparr>"

definition ex_cfg :: config where
  "ex_cfg =
     \<lparr>cfg_accounts = [ex_acct_chk, ex_acct_sav, ex_acct_biz],
      cfg_transfers =
        [\<lparr>tr_pattern_fitid_suffix = None, tr_pattern = ''ONLINE TRANSFER'',
          tr_from_account = ''biz'', tr_to_account = ''sav'',
          tr_type = Some ''savings-transfer''\<rparr>],
      cfg_merchants_auto =
        [\<lparr>mr_match = ''contains'', mr_pattern = ''COFFEE'',
          mr_category_id = Some ''dining'', mr_consistency = 100,
          mr_merchant_name = None\<rparr>],
      cfg_merchants_high = [], cfg_amount_rules = [], cfg_account_rules = [],
      cfg_transfer_categories = [(''savings-transfer'', ''xfer-savings'')],
      cfg_fallback_category = Some ''uncategorized''\<rparr>"

text \<open>Three transactions on the business account: a transfer to savings, an interest
  payment, and a purchase at a coffee shop.\<close>

definition ex_biz_transfer :: transaction where
  "ex_biz_transfer =
     ex_bank_row\<lparr>t_id := ''b1'', t_account_id := ''biz'', t_amount := - 100,
                 t_raw_description := ''ONLINE TRANSFER'', t_external_id := Some ''F7''\<rparr>"

definition ex_biz_interest :: transaction where
  "ex_biz_interest =
     ex_bank_row\<lparr>t_id := ''b2'', t_account_id := ''biz'', t_amount := 2,
                 t_raw_description := ''MONTHLY'', t_external_id := Some ''F8INT''\<rparr>"

definition ex_biz_coffee :: transaction where
  "ex_biz_coffee =
     ex_bank_row\<lparr>t_id := ''b3'', t_account_id := ''biz'', t_amount := - 4,
                 t_raw_description := ''COFFEE'', t_external_id := Some ''F9''\<rparr>"

section \<open>Properties of the subset-sum search\<close>

lemma find_Some_set:
  "find P xs = Some x \<Longrightarrow> x \<in> set xs \<and> P x"
  by (induction xs) (auto split: if_splits)

lemma combinations_length:
  "c \<in> set (combinations xs k) \<Longrightarrow> length c = k"
  by (induction xs k arbitrary: c rule: combinations.induct) auto

lemma combinations_subseq:
  "c \<in> set (combinations xs k) \<Longrightarrow> subseq c xs"
  by (induction xs k arbitrary: c rule: combinations.induct) (auto simp: subseq_Cons')

lemma combinations_complete:
  "subseq c xs \<Longrightarrow> c \<in> set (combinations xs (length c))"
proof (induction xs arbitrary: c)
  case Nil
  then have "c = []" by simp
  then show ?case by simp
next
  case (Cons x xs)
  show ?case
  proof (cases c)
    case Nil
    then show ?thesis by simp
  next
    case (Cons y ys)
    show ?thesis
    proof (cases "x = y")
      case True
      with Cons.prems Cons have "subseq ys xs" by simp
      then have "ys \<in> set (combinations xs (length ys))" by (rule Cons.IH)
      with True Cons show ?thesis by simp
    next
      case False
      with Cons.prems Cons have "subseq c xs" by simp
      then have "c \<in> set (combinations xs (length c))" by (rule Cons.IH)
      with Cons show ?thesis by simp
    qed
  qed
qed

lemma combinations_sizes:
  "c \<in> set (concat (map (combinations xs) ks)) \<Longrightarrow> length c \<in> set ks"
  by (auto simp: combinations_length)

text \<open>
  C4. The split-sum subset search only ever returns index subsets of size at least 2; on
  the amounts \<open>[-99.99, -16.99]\<close> with target \<open>-116.98\<close> and tolerance \<open>0.01\<close> it returns
  exactly the indices \<open>0, 1\<close>, and on the single amount \<open>[-100.0]\<close> with target \<open>-100.0\<close>
  it returns no match.
\<close>

theorem find_subset_sum_size_ge_2:
  "(\<forall>amounts target tolerance idxs.
      find_subset_sum amounts target tolerance = Some idxs \<longrightarrow> 2 \<le> length idxs)
   \<and> find_subset_sum [- (9999 / 100), - (1699 / 100)] (- (11698 / 100)) (1 / 100)
       = Some [0, 1]
   \<and> find_subset_sum [- 100] (- 100) (1 / 100) = None"
proof (intro conjI allI impI)
  fix amounts target tolerance idxs
  assume a: "find_subset_sum amounts target tolerance = Some idxs"
  define n where "n = length amounts"
  from a have "find (\<lambda>combo. \<bar>subset_total amounts combo - target\<bar> \<le> tolerance)
                 (concat (map (combinations [0..<n]) [2..<n + 1])) = Some idxs"
    unfolding find_subset_sum_def Let_def n_def by (simp split: if_splits)
  then have "idxs \<in> set (concat (map (combinations [0..<n]) [2..<n + 1]))"
    by (simp only: find_Some_set)
  then have "length idxs \<in> set [2..<n + 1]"
    by (rule combinations_sizes)
  then show "2 \<le> length idxs"
    by auto
next
  show "find_subset_sum [- (9999 / 100), - (1699 / 100)] (- (11698 / 100)) (1 / 100)
          = Some [0, 1]"
    by code_simp
next
  show "find_subset_sum [- 100] (- 100) (1 / 100) = None"
    by code_simp
qed

theorem find_subset_sum_size_ge_2_witness:
  "find_subset_sum [1, 2, 3, 7] 10 (1 / 100) = Some [2, 3] \<and> 2 \<le> length [2::nat, 3]"
proof -
  have e: "find_subset_sum [1, 2, 3, 7] 10 (1 / 100) = Some [2, 3]"
    by code_simp
  from find_subset_sum_size_ge_2 e have "2 \<le> length [2::nat, 3]"
    by blast
  with e show ?thesis by simp
qed

section \<open>The example data, evaluated\<close>

lemma ex_bank_row_fields:
  "t_id ex_bank_row = ''t1''"
  "t_account_id ex_bank_row = ''chk''"
  "t_external_id ex_bank_row = Some ''F1''"
  "t_dedup_key ex_bank_row = ''chk:2024-01-15:-2500''"
  "t_import_hash ex_bank_row = ''chk|2024-01-15|-25.00|AMAZON.COM*MB2KR7PH0''"
  "t_date ex_bank_row = ''2024-01-15''"
  "t_status ex_bank_row = ''pending''"
  by (simp_all add: ex_bank_row_def)

lemma ex_raw_budget_fields:
  "r_account_id ex_raw_budget = ''chk''"
  "r_external_id ex_raw_budget = None"
  "r_date ex_raw_budget = ''2024-01-15''"
  "r_amount ex_raw_budget = - 25"
  "r_raw_description ex_raw_budget = ''Amazon''"
  by (simp_all add: ex_raw_budget_def)

lemma ex_raw_bank_fields:
  "r_account_id ex_raw_bank = ''chk''"
  "r_external_id ex_raw_bank = Some ''F1''"
  by (simp_all add: ex_raw_bank_def)

lemma ex_repo_transactions: "transactions ex_repo = [ex_bank_row]"
  by (simp add: ex_repo_def)

lemma ex_dedup_key:
  "compute_dedup_key ''chk'' ''2024-01-15'' (- 25) = ''chk:2024-01-15:-2500''"
  by code_simp

lemma ex_import_hash:
  "compute_import_hash (\<lambda>s. s) ''chk'' ''2024-01-15'' (- 25) ''Amazon''
     = ''chk|2024-01-15|-25.00|Amazon''"
  by code_simp

lemma ex_cross:
  "check_cross_format_duplicate ex_repo ''chk:2024-01-15:-2500'' False = [ex_bank_row]"
  by (simp add: check_cross_format_duplicate_def get_transactions_by_dedup_key_def
        ex_repo_transactions ex_bank_row_fields)

lemma ex_dedup_budget:
  "deduplicate (\<lambda>s. s) ratio ex_repo ex_raw_budget imp
     = \<lparr>d_status = ''duplicate'', d_tier = Some ''cross_format'',
        d_matched_txn = Some ex_bank_row, d_confidence = None, d_matched_splits = None\<rparr>"
  by (simp add: deduplicate_def check_external_id_def check_import_hash_def
        get_transactions_by_import_hash_def ex_raw_budget_fields ex_dedup_key ex_import_hash
        ex_cross truthy_def ex_repo_transactions ex_bank_row_fields Let_def)

section \<open>Properties of the deduplication tiers\<close>

lemma find_None_iff_set: "find P xs = None \<longleftrightarrow> (\<forall>x \<in> set xs. \<not> P x)"
  by (induction xs) auto

lemma check_external_id_hit:
  assumes "truthy ext" and "t \<in> set (transactions repo)"
    and "t_account_id t = acct" and "t_external_id t = ext"
  shows "\<exists>t'. check_external_id repo acct ext = Some t'
              \<and> t_account_id t' = acct \<and> t_external_id t' = ext"
proof -
  from assms(1) obtain e where e: "ext = Some e" "e \<noteq> []"
    by (auto simp: truthy_def split: option.splits)
  let ?P = "\<lambda>t. t_account_id t = acct \<and> t_external_id t = Some e"
  from assms e have "find ?P (transactions repo) \<noteq> None"
    by (auto simp: find_None_iff_set)
  then obtain t' where f: "find ?P (transactions repo) = Some t'" by auto
  from find_Some_set[OF f] have "?P t'" by simp
  with f e show ?thesis
    by (simp add: check_external_id_def get_transaction_by_external_id_def)
qed

text \<open>
  C5. For every incoming row that carries an external identifier, \<open>deduplicate\<close> never
  returns a fuzzy-tier (flagged) result, and its result does not depend on the
  description-similarity function at all: the fuzzy check is evaluated only for rows
  without identifier. If an existing transaction on the same account shares the
  identifier, the result is a duplicate decided at the external-identifier tier, matched
  with such a transaction.
\<close>

theorem deduplicate_external_id_first:
  assumes "truthy (r_external_id raw)"
  shows "d_tier (deduplicate sha256 ratio repo raw import_id) \<noteq> Some ''fuzzy''
       \<and> d_status (deduplicate sha256 ratio repo raw import_id) \<noteq> ''flagged''
       \<and> deduplicate sha256 ratio repo raw import_id
           = deduplicate sha256 ratio' repo raw import_id
       \<and> ((\<exists>t \<in> set (transactions repo).
              t_account_id t = r_account_id raw \<and> t_external_id t = r_external_id raw)
            \<longrightarrow> (\<exists>t'. deduplicate sha256 ratio repo raw import_id
                         = \<lparr>d_status = ''duplicate'', d_tier = Some ''external_id'',
                            d_matched_txn = Some t', d_confidence = None,
                            d_matched_splits = None\<rparr>
                       \<and> t_account_id t' = r_account_id raw
                       \<and> t_external_id t' = r_external_id raw))"
proof (intro conjI impI)
  show "d_tier (deduplicate sha256 ratio repo raw import_id) \<noteq> Some ''fuzzy''"
    using assms
    by (simp add: deduplicate_def dedup_new_def Let_def
             split: option.splits list.splits)
  show "d_status (deduplicate sha256 ratio repo raw import_id) \<noteq> ''flagged''"
    using assms
    by (simp add: deduplicate_def dedup_new_def Let_def
             split: option.splits list.splits)
  show "deduplicate sha256 ratio repo raw import_id
           = deduplicate sha256 ratio' repo raw import_id"
    using assms
    by (simp add: deduplicate_def Let_def split: option.splits list.splits)
next
  assume "\<exists>t \<in> set (transactions repo).
              t_account_id t = r_account_id raw \<and> t_external_id t = r_external_id raw"
  then obtain t where "t \<in> set (transactions repo)" "t_account_id t = r_account_id raw"
     "t_external_id t = r_external_id raw" by blast
  with assms obtain t' where
    "check_external_id repo (r_account_id raw) (r_external_id raw) = Some t'"
    "t_account_id t' = r_account_id raw" "t_external_id t' = r_external_id raw"
    using check_external_id_hit by blast
  then show "\<exists>t'. deduplicate sha256 ratio repo raw import_id
                         = \<lparr>d_status = ''duplicate'', d_tier = Some ''external_id'',
                            d_matched_txn = Some t', d_confidence = None,
                            d_matched_splits = None\<rparr>
                       \<and> t_account_id t' = r_account_id raw
                       \<and> t_external_id t' = r_external_id raw"
    by (simp add: deduplicate_def)
qed

text \<open>The theorem at the bank row of the example, whose identifier \<open>F1\<close> is in the
  repository under a slightly different description, with a similarity function that
  would flag every pair.\<close>

theorem deduplicate_external_id_first_witness:
  "truthy (r_external_id ex_raw_bank)
   \<and> (\<exists>t \<in> set (transactions ex_repo).
         t_account_id t = r_account_id ex_raw_bank
         \<and> t_external_id t = r_external_id ex_raw_bank)
   \<and> d_tier (deduplicate (\<lambda>s. s) (\<lambda>a b. 1) ex_repo ex_raw_bank ''imp1'')
       = Some ''external_id''
   \<and> d_status (deduplicate (\<lambda>s. s) (\<lambda>a b. 1) ex_repo ex_raw_bank ''imp1'')
       = ''duplicate''"
proof -
  have h: "truthy (r_external_id ex_raw_bank)"
    by (simp add: ex_raw_bank_fields truthy_def)
  have e: "\<exists>t \<in> set (transactions ex_repo).
         t_account_id t = r_account_id ex_raw_bank
         \<and> t_external_id t = r_external_id ex_raw_bank"
    by (simp add: ex_repo_transactions ex_bank_row_fields ex_raw_bank_fields)
  from deduplicate_external_id_first[OF h, of "\<lambda>s. s" "\<lambda>a b. 1" ex_repo "''imp1''"] e
  obtain t' where "deduplicate (\<lambda>s. s) (\<lambda>a b. 1) ex_repo ex_raw_bank ''imp1''
                         = \<lparr>d_status = ''duplicate'', d_tier = Some ''external_id'',
                            d_matched_txn = Some t', d_confidence = None,
                            d_matched_splits = None\<rparr>"
    by blast
  with h e show ?thesis by simp
qed

section \<open>The count limit of the cross-format tier\<close>

lemma cross_matches_props:
  "c \<in> set (check_cross_format_duplicate repo dk h)
     \<Longrightarrow> t_dedup_key c = dk \<and> (t_external_id c = None) = h"
  by (auto simp: check_cross_format_duplicate_def get_transactions_by_dedup_key_def)

lemma deduplicate_cross_format:
  assumes "d_tier (deduplicate sha256 ratio repo raw imp) = Some ''cross_format''"
  shows "\<exists>c0 cs. check_cross_format_duplicate repo
                    (compute_dedup_key (r_account_id raw) (r_date raw) (r_amount raw))
                    (truthy (r_external_id raw)) = c0 # cs
               \<and> deduplicate sha256 ratio repo raw imp
                   = \<lparr>d_status = ''duplicate'', d_tier = Some ''cross_format'',
                      d_matched_txn = Some c0, d_confidence = None,
                      d_matched_splits = None\<rparr>"
proof -
  define dk where "dk = compute_dedup_key (r_account_id raw) (r_date raw) (r_amount raw)"
  define h where "h = truthy (r_external_id raw)"
  define cm where "cm = check_cross_format_duplicate repo dk h"
  define fz where "fz = check_fuzzy_duplicate ratio repo dk (r_raw_description raw) None"
  have fz: "d_tier fz \<noteq> Some ''cross_format''"
    by (simp add: fz_def check_fuzzy_duplicate_def Let_def dedup_new_def split: prod.splits)
  show ?thesis
  proof (cases cm)
    case Nil
    with assms fz show ?thesis
      unfolding deduplicate_def Let_def dk_def[symmetric] h_def[symmetric] cm_def[symmetric]
        fz_def[symmetric]
      by (simp add: dedup_new_def split: option.splits list.splits if_splits)
  next
    case (Cons c0 cs)
    with assms show ?thesis
      unfolding deduplicate_def Let_def dk_def[symmetric] h_def[symmetric] cm_def[symmetric]
      by (simp split: option.splits)
  qed
qed


lemma finish_row_new:
  "d_status r \<noteq> ''duplicate'' \<Longrightarrow>
     duplicates (finish_row new_id imp src s raw h r) = duplicates s
     \<and> cross_format_used (finish_row new_id imp src s raw h r) = cross_format_used s"
  by (simp add: finish_row_def Let_def)

lemma finish_row_dup:
  "d_status r = ''duplicate'' \<Longrightarrow>
     finish_row new_id imp src s raw h r = s\<lparr>duplicates := duplicates s @ [r]\<rparr>"
  by (simp add: finish_row_def)

lemma split_sum_row_effect:
  fixes s :: batch_state
  assumes "d_tier r \<noteq> Some ''cross_format''"
    and "s' = split_sum_row new_id imp src s raw h r"
  shows "(duplicates s' = duplicates s \<and> cross_format_used s' = cross_format_used s)
       \<or> (\<exists>d. duplicates s' = duplicates s @ [d] \<and> cross_format_used s' = cross_format_used s
              \<and> d_tier d \<noteq> Some ''cross_format'')"
proof (cases "d_status r = ''duplicate''")
  case True
  with assms(1) show ?thesis
    unfolding assms(2) split_sum_row_def Let_def
    by (simp add: finish_row_dup finish_row_new dedup_new_def)
next
  case False
  then show ?thesis
    unfolding assms(2) split_sum_row_def Let_def
    by (simp add: finish_row_new)
qed

lemma process_row_step:
  fixes s :: batch_state and raw :: raw_transaction and sha256 ratio new_id repo imp src
  defines "s' \<equiv> process_row sha256 ratio new_id repo imp src s raw"
    and "dk \<equiv> compute_dedup_key (r_account_id raw) (r_date raw) (r_amount raw)"
    and "h \<equiv> truthy (r_external_id raw)"
  shows "(duplicates s' = duplicates s \<and> cross_format_used s' = cross_format_used s)
       \<or> (\<exists>d. duplicates s' = duplicates s @ [d] \<and> cross_format_used s' = cross_format_used s
              \<and> d_tier d \<noteq> Some ''cross_format'')
       \<or> (\<exists>c0 cs. check_cross_format_duplicate repo dk h = c0 # cs
              \<and> used_slots s dk < length (c0 # cs)
              \<and> duplicates s' = duplicates s @ [cf_result c0]
              \<and> cross_format_used s' = (dk, used_slots s dk + 1) # cross_format_used s)"
proof -
  define hash where "hash = compute_import_hash sha256 (r_account_id raw) (r_date raw)
                              (r_amount raw) (r_raw_description raw)"
  define r where "r = deduplicate sha256 ratio repo raw imp"
  consider (seen) "seen_in_batch s raw"
    | (hash) "\<not> seen_in_batch s raw" "hash \<in> set (seen_import_hashes s) \<and> \<not> h"
    | (dedup) "\<not> seen_in_batch s raw" "\<not> (hash \<in> set (seen_import_hashes s) \<and> \<not> h)"
    by blast
  then show ?thesis
  proof cases
    case seen
    then have "s' = s\<lparr>duplicates := duplicates s @ [dup_only ''external_id'']\<rparr>"
      by (simp add: s'_def process_row_def)
    then show ?thesis by (simp add: dup_only_def)
  next
    case hash
    then have "s' = s\<lparr>duplicates := duplicates s @ [dup_only ''import_hash'']\<rparr>"
      by (simp add: s'_def process_row_def hash_def h_def Let_def)
    then show ?thesis by (simp add: dup_only_def)
  next
    case dedup
    then have s': "s' = cross_format_row new_id repo imp src s raw hash r"
      by (auto simp: s'_def process_row_def hash_def h_def Let_def r_def)
    show ?thesis
    proof (cases "d_tier r = Some ''cross_format''")
      case True
      then obtain c0 cs where cm: "check_cross_format_duplicate repo dk h = c0 # cs"
        and r: "r = cf_result c0"
        unfolding r_def dk_def h_def cf_result_def
        using deduplicate_cross_format by blast
      show ?thesis
      proof (cases "used_slots s dk < length (c0 # cs)")
        case True
        with cm r have "s' = s\<lparr>cross_format_used := (dk, used_slots s dk + 1) # cross_format_used s,
                               duplicates := duplicates s @ [cf_result c0]\<rparr>"
          unfolding s' cross_format_row_def Let_def dk_def[symmetric] h_def[symmetric]
          by (simp add: cf_result_def)
        with cm True show ?thesis by simp
      next
        case False
        with cm r have "s' = split_sum_row new_id imp src s raw hash dedup_new"
          unfolding s' cross_format_row_def Let_def dk_def[symmetric] h_def[symmetric]
          by (simp add: cf_result_def)
        then have "duplicates s' = duplicates s \<and> cross_format_used s' = cross_format_used s"
          by (simp add: split_sum_row_def dedup_new_def finish_row_new)
        then show ?thesis by simp
      qed
    next
      case False
      then have "s' = split_sum_row new_id imp src s raw hash r"
        unfolding s' cross_format_row_def by simp
      from split_sum_row_effect[OF False this] show ?thesis by blast
    qed
  qed
qed

lemma cf_result_is_dup:
  assumes "check_cross_format_duplicate repo dk h = c0 # cs"
  shows "is_cross_format_dup dk' h' (cf_result c0) \<longleftrightarrow> dk' = dk \<and> h' = h"
proof -
  have "c0 \<in> set (check_cross_format_duplicate repo dk h)" using assms by simp
  from cross_matches_props[OF this] show ?thesis
    by (auto simp: is_cross_format_dup_def cf_result_def)
qed

lemma not_cf_not_dup:
  "d_tier d \<noteq> Some ''cross_format'' \<Longrightarrow> \<not> is_cross_format_dup dk h d"
  by (simp add: is_cross_format_dup_def)

lemma batch_inv_step:
  assumes "batch_inv repo s"
  shows "batch_inv repo (process_row sha256 ratio new_id repo imp src s raw)"
proof -
  define s' where "s' = process_row sha256 ratio new_id repo imp src s raw"
  define dk where "dk = compute_dedup_key (r_account_id raw) (r_date raw) (r_amount raw)"
  define h where "h = truthy (r_external_id raw)"
  from process_row_step[of sha256 ratio new_id repo imp src s raw]
  consider (same) "duplicates s' = duplicates s" "cross_format_used s' = cross_format_used s"
    | (other) d where "duplicates s' = duplicates s @ [d]"
        "cross_format_used s' = cross_format_used s" "d_tier d \<noteq> Some ''cross_format''"
    | (cross) c0 cs where "check_cross_format_duplicate repo dk h = c0 # cs"
        "used_slots s dk < length (c0 # cs)"
        "duplicates s' = duplicates s @ [cf_result c0]"
        "cross_format_used s' = (dk, used_slots s dk + 1) # cross_format_used s"
    unfolding s'_def dk_def h_def by blast
  then have "batch_inv repo s'"
  proof cases
    case same
    with assms show ?thesis
      by (simp add: batch_inv_def used_slots_def cross_format_count_def)
  next
    case other
    with assms show ?thesis
      by (simp add: batch_inv_def used_slots_def cross_format_count_def not_cf_not_dup)
  next
    case cross
    have cnt: "cross_format_count s' dk' h'
                 = cross_format_count s dk' h' + (if dk' = dk \<and> h' = h then 1 else 0)"
      for dk' h'
      using cross(3) cf_result_is_dup[OF cross(1)]
      by (simp add: cross_format_count_def)
    have used: "used_slots s' dk' = (if dk' = dk then used_slots s dk + 1 else used_slots s dk')"
      for dk'
      using cross(4) by (simp add: used_slots_def)
    from assms have u: "used_slots s dk' = cross_format_count s dk' True + cross_format_count s dk' False"
      and b: "cross_format_count s dk' h' \<le> length (check_cross_format_duplicate repo dk' h')"
      for dk' h'
      by (simp_all add: batch_inv_def)
    have "used_slots s' dk' = cross_format_count s' dk' True + cross_format_count s' dk' False"
      for dk'
      using u[of dk'] u[of dk] by (cases h) (simp_all add: cnt used)
    moreover have "cross_format_count s' dk' h' \<le> length (check_cross_format_duplicate repo dk' h')"
      for dk' h'
    proof (cases "dk' = dk \<and> h' = h")
      case True
      have "cross_format_count s dk h \<le> used_slots s dk"
        using u[of dk] by (cases h) simp_all
      with cross(1,2) True show ?thesis by (simp add: cnt)
    next
      case False
      with b[of dk' h'] show ?thesis by (auto simp: cnt)
    qed
    ultimately show ?thesis by (simp add: batch_inv_def)
  qed
  then show ?thesis by (simp add: s'_def)
qed

lemma batch_inv_init: "batch_inv repo batch_init"
  by (simp add: batch_inv_def batch_init_def used_slots_def cross_format_count_def)

lemma batch_inv_rows:
  "batch_inv repo s \<Longrightarrow> batch_inv repo (process_rows sha256 ratio new_id repo imp src s raws)"
  unfolding process_rows_def
  by (induction raws arbitrary: s) (simp_all add: batch_inv_step)

lemma finish_row_new_txns:
  "set (new_txns s) \<subseteq> set (new_txns (finish_row new_id imp src s raw h r))
   \<and> set (flagged s) \<subseteq> set (flagged (finish_row new_id imp src s raw h r))"
  by (auto simp: finish_row_def Let_def)

lemma process_row_new_txns:
  "set (new_txns s) \<subseteq> set (new_txns (process_row sha256 ratio new_id repo imp src s raw))"
  using finish_row_new_txns
  by (simp add: process_row_def cross_format_row_def split_sum_row_def Let_def)

lemma process_rows_new_txns:
  "set (new_txns s) \<subseteq> set (new_txns (process_rows sha256 ratio new_id repo imp src s raws))"
  unfolding process_rows_def
proof (induction raws arbitrary: s)
  case Nil
  show ?case by simp
next
  case (Cons raw raws)
  from process_row_new_txns Cons.IH show ?case
    by (metis foldl_Cons subset_trans)
qed

lemma process_rows_append:
  "process_rows sha256 ratio new_id repo imp src s (pre @ raw # post)
     = process_rows sha256 ratio new_id repo imp src
         (process_row sha256 ratio new_id repo imp src
            (process_rows sha256 ratio new_id repo imp src s pre) raw) post"
  by (simp add: process_rows_def)

lemma excess_row_is_new:
  assumes "\<not> seen_in_batch s raw"
    and "\<not> (compute_import_hash sha256 (r_account_id raw) (r_date raw) (r_amount raw)
               (r_raw_description raw) \<in> set (seen_import_hashes s)
             \<and> \<not> truthy (r_external_id raw))"
    and "d_tier (deduplicate sha256 ratio repo raw imp) = Some ''cross_format''"
    and "length (check_cross_format_duplicate repo
                   (compute_dedup_key (r_account_id raw) (r_date raw) (r_amount raw))
                   (truthy (r_external_id raw)))
           \<le> used_slots s (compute_dedup_key (r_account_id raw) (r_date raw) (r_amount raw))"
  shows "duplicates (process_row sha256 ratio new_id repo imp src s raw) = duplicates s
       \<and> flagged (process_row sha256 ratio new_id repo imp src s raw) = flagged s
       \<and> new_txns (process_row sha256 ratio new_id repo imp src s raw)
           = new_txns s @ [make_transaction (new_id (length (new_txns s) + length (flagged s)))
                             raw imp
                             (compute_import_hash sha256 (r_account_id raw) (r_date raw)
                                (r_amount raw) (r_raw_description raw))
                             src ''pending'']"
proof -
  from deduplicate_cross_format[OF assms(3)] obtain c0 cs where
    "check_cross_format_duplicate repo
        (compute_dedup_key (r_account_id raw) (r_date raw) (r_amount raw))
        (truthy (r_external_id raw)) = c0 # cs"
    "deduplicate sha256 ratio repo raw imp = cf_result c0"
    unfolding cf_result_def by blast
  with assms(1,2,4) show ?thesis
    by (auto simp: process_row_def cross_format_row_def split_sum_row_def finish_row_def
          Let_def cf_result_def dedup_new_def)
qed

subsection \<open>The batch of the example, row by row\<close>

lemma ex_hash_budget:
  "compute_import_hash (\<lambda>s. s) (r_account_id ex_raw_budget) (r_date ex_raw_budget)
     (r_amount ex_raw_budget) (r_raw_description ex_raw_budget) = ''chk|2024-01-15|-25.00|Amazon''"
  by (simp add: ex_raw_budget_fields ex_import_hash)

lemma ex_key_budget:
  "compute_dedup_key (r_account_id ex_raw_budget) (r_date ex_raw_budget)
     (r_amount ex_raw_budget) = ''chk:2024-01-15:-2500''"
  by (simp add: ex_raw_budget_fields ex_dedup_key)

lemma ex_not_seen: "\<not> seen_in_batch s ex_raw_budget"
  by (simp add: seen_in_batch_def ex_raw_budget_fields)

lemma ex_dedup_budget_cf:
  "deduplicate (\<lambda>s. s) ratio ex_repo ex_raw_budget imp = cf_result ex_bank_row"
  by (simp add: ex_dedup_budget cf_result_def)

text \<open>First row: one slot, not yet used.\<close>

lemma ex_step1:
  "process_row (\<lambda>s. s) ratio new_id ex_repo imp src batch_init ex_raw_budget
     = batch_init\<lparr>cross_format_used := [(''chk:2024-01-15:-2500'', 1)],
                  duplicates := [cf_result ex_bank_row]\<rparr>"
  by (simp add: process_row_def ex_not_seen Let_def batch_init_def
        ex_dedup_budget_cf cross_format_row_def cf_result_def ex_dedup_key ex_import_hash
        ex_raw_budget_fields truthy_def ex_cross used_slots_def)

text \<open>Second row: the slot is used, the row is inserted as new.\<close>

lemma ex_step2:
  "process_row (\<lambda>s. s) ratio new_id ex_repo imp src
     (batch_init\<lparr>cross_format_used := [(''chk:2024-01-15:-2500'', 1)],
                 duplicates := [cf_result ex_bank_row]\<rparr>) ex_raw_budget
     = batch_init\<lparr>cross_format_used := [(''chk:2024-01-15:-2500'', 1)],
                  duplicates := [cf_result ex_bank_row],
                  seen_import_hashes := [''chk|2024-01-15|-25.00|Amazon''],
                  new_txns := [make_transaction (new_id 0) ex_raw_budget imp
                                 ''chk|2024-01-15|-25.00|Amazon'' src ''pending'']\<rparr>"
  by (simp add: process_row_def ex_not_seen Let_def batch_init_def
        ex_dedup_budget_cf cross_format_row_def cf_result_def ex_dedup_key ex_import_hash
        ex_raw_budget_fields truthy_def ex_cross used_slots_def split_sum_row_def
        finish_row_def dedup_new_def)

text \<open>Third row: the same content again is an intra-batch import-hash duplicate.\<close>

lemma ex_step3:
  "process_row (\<lambda>s. s) ratio new_id ex_repo imp src
     (batch_init\<lparr>cross_format_used := [(''chk:2024-01-15:-2500'', 1)],
                  duplicates := [cf_result ex_bank_row],
                  seen_import_hashes := [''chk|2024-01-15|-25.00|Amazon''],
                  new_txns := [make_transaction (new_id 0) ex_raw_budget imp
                                 ''chk|2024-01-15|-25.00|Amazon'' src ''pending'']\<rparr>)
     ex_raw_budget
     = batch_init\<lparr>cross_format_used := [(''chk:2024-01-15:-2500'', 1)],
                  duplicates := [cf_result ex_bank_row, dup_only ''import_hash''],
                  seen_import_hashes := [''chk|2024-01-15|-25.00|Amazon''],
                  new_txns := [make_transaction (new_id 0) ex_raw_budget imp
                                 ''chk|2024-01-15|-25.00|Amazon'' src ''pending'']\<rparr>"
  by (simp add: process_row_def ex_not_seen Let_def batch_init_def ex_import_hash
        ex_raw_budget_fields truthy_def)

lemma ex_rows3:
  "process_rows (\<lambda>s. s) ratio new_id ex_repo imp src batch_init
     [ex_raw_budget, ex_raw_budget, ex_raw_budget]
     = batch_init\<lparr>cross_format_used := [(''chk:2024-01-15:-2500'', 1)],
                  duplicates := [cf_result ex_bank_row, dup_only ''import_hash''],
                  seen_import_hashes := [''chk|2024-01-15|-25.00|Amazon''],
                  new_txns := [make_transaction (new_id 0) ex_raw_budget imp
                                 ''chk|2024-01-15|-25.00|Amazon'' src ''pending'']\<rparr>"
  by (simp only: process_rows_def foldl_Cons foldl_Nil ex_step1 ex_step2 ex_step3)

lemma ex_rows1:
  "process_rows (\<lambda>s. s) ratio new_id ex_repo imp src batch_init [ex_raw_budget]
     = batch_init\<lparr>cross_format_used := [(''chk:2024-01-15:-2500'', 1)],
                  duplicates := [cf_result ex_bank_row]\<rparr>"
  by (simp only: process_rows_def foldl_Cons foldl_Nil ex_step1)

text \<open>
  C3 (as amended). For every batch and every dedup key, at most as many incoming rows are
  recorded as cross-format duplicates of that key as opposite-source rows of that key
  exist in the repository (for either kind of incoming row: with or without external
  identifier). And every incoming row that reaches tier 3.5 (it is not rejected by the
  intra-batch checks, nor by the external-identifier or import-hash tier) as a
  cross-format candidate after that many cross-format duplicates have been recorded for
  its key is not recorded as a duplicate: it becomes a new pending transaction, is part of
  the batch result and is inserted into the repository.
\<close>

theorem process_batch_cross_format_count_limited:
  "cross_format_count (process_rows sha256 ratio new_id repo imp src batch_init raws) dk h
     \<le> length (check_cross_format_duplicate repo dk h)
   \<and> (\<forall>pre raw post s key hash txn.
        raws = pre @ raw # post
        \<and> s = process_rows sha256 ratio new_id repo imp src batch_init pre
        \<and> key = compute_dedup_key (r_account_id raw) (r_date raw) (r_amount raw)
        \<and> hash = compute_import_hash sha256 (r_account_id raw) (r_date raw) (r_amount raw)
                   (r_raw_description raw)
        \<and> txn = make_transaction (new_id (length (new_txns s) + length (flagged s)))
                  raw imp hash src ''pending''
        \<and> \<not> seen_in_batch s raw
        \<and> \<not> (hash \<in> set (seen_import_hashes s) \<and> \<not> truthy (r_external_id raw))
        \<and> d_tier (deduplicate sha256 ratio repo raw imp) = Some ''cross_format''
        \<and> length (check_cross_format_duplicate repo key (truthy (r_external_id raw)))
             \<le> cross_format_count s key True + cross_format_count s key False
        \<longrightarrow> duplicates (process_row sha256 ratio new_id repo imp src s raw) = duplicates s
            \<and> new_txns (process_row sha256 ratio new_id repo imp src s raw)
                = new_txns s @ [txn]
            \<and> txn \<in> set (b_transactions
                           (fst (process_batch sha256 ratio new_id repo raws imp src)))
            \<and> txn \<in> set (transactions
                           (snd (process_batch sha256 ratio new_id repo raws imp src))))"
proof (intro conjI allI impI)
  have "batch_inv repo (process_rows sha256 ratio new_id repo imp src batch_init raws)"
    by (rule batch_inv_rows[OF batch_inv_init])
  then show "cross_format_count (process_rows sha256 ratio new_id repo imp src batch_init raws)
               dk h \<le> length (check_cross_format_duplicate repo dk h)"
    by (simp add: batch_inv_def)
next
  fix pre raw post s key hash txn
  assume a: "raws = pre @ raw # post
        \<and> s = process_rows sha256 ratio new_id repo imp src batch_init pre
        \<and> key = compute_dedup_key (r_account_id raw) (r_date raw) (r_amount raw)
        \<and> hash = compute_import_hash sha256 (r_account_id raw) (r_date raw) (r_amount raw)
                   (r_raw_description raw)
        \<and> txn = make_transaction (new_id (length (new_txns s) + length (flagged s)))
                  raw imp hash src ''pending''
        \<and> \<not> seen_in_batch s raw
        \<and> \<not> (hash \<in> set (seen_import_hashes s) \<and> \<not> truthy (r_external_id raw))
        \<and> d_tier (deduplicate sha256 ratio repo raw imp) = Some ''cross_format''
        \<and> length (check_cross_format_duplicate repo key (truthy (r_external_id raw)))
             \<le> cross_format_count s key True + cross_format_count s key False"
  define s' where "s' = process_row sha256 ratio new_id repo imp src s raw"
  define final where "final = process_rows sha256 ratio new_id repo imp src batch_init raws"
  from a have raws: "raws = pre @ raw # post"
    and s: "s = process_rows sha256 ratio new_id repo imp src batch_init pre"
    and key: "key = compute_dedup_key (r_account_id raw) (r_date raw) (r_amount raw)"
    and hash: "hash = compute_import_hash sha256 (r_account_id raw) (r_date raw)
                        (r_amount raw) (r_raw_description raw)"
    and txn: "txn = make_transaction (new_id (length (new_txns s) + length (flagged s)))
                      raw imp hash src ''pending''"
    and ns: "\<not> seen_in_batch s raw"
    and nh0: "\<not> (hash \<in> set (seen_import_hashes s) \<and> \<not> truthy (r_external_id raw))"
    and cf: "d_tier (deduplicate sha256 ratio repo raw imp) = Some ''cross_format''"
    and cnt: "length (check_cross_format_duplicate repo key (truthy (r_external_id raw)))
                \<le> cross_format_count s key True + cross_format_count s key False"
    by blast+
  have "batch_inv repo s"
    unfolding s by (rule batch_inv_rows[OF batch_inv_init])
  then have "used_slots s key = cross_format_count s key True + cross_format_count s key False"
    by (simp add: batch_inv_def)
  with cnt have full: "length (check_cross_format_duplicate repo
                       (compute_dedup_key (r_account_id raw) (r_date raw) (r_amount raw))
                       (truthy (r_external_id raw)))
                  \<le> used_slots s
                       (compute_dedup_key (r_account_id raw) (r_date raw) (r_amount raw))"
    unfolding key by linarith
  from nh0 have nh: "\<not> (compute_import_hash sha256 (r_account_id raw) (r_date raw) (r_amount raw)
               (r_raw_description raw) \<in> set (seen_import_hashes s)
             \<and> \<not> truthy (r_external_id raw))"
    unfolding hash .
  from excess_row_is_new[OF ns nh cf full, of new_id src]
  have d: "duplicates s' = duplicates s" and n: "new_txns s' = new_txns s @ [txn]"
    unfolding s'_def txn hash by blast+
  from d show "duplicates (process_row sha256 ratio new_id repo imp src s raw) = duplicates s"
    by (simp add: s'_def)
  from n show "new_txns (process_row sha256 ratio new_id repo imp src s raw)
                = new_txns s @ [txn]"
    by (simp add: s'_def)
  have "final = process_rows sha256 ratio new_id repo imp src s' post"
    unfolding final_def s'_def raws s by (rule process_rows_append)
  with n process_rows_new_txns[of s' sha256 ratio new_id repo imp src post]
  have mem: "txn \<in> set (new_txns final)"
    by auto
  then show "txn \<in> set (b_transactions
                           (fst (process_batch sha256 ratio new_id repo raws imp src)))"
    by (simp add: process_batch_def Let_def final_def)
  from mem have "new_txns final @ flagged final \<noteq> []" by auto
  with mem show "txn \<in> set (transactions
                           (snd (process_batch sha256 ratio new_id repo raws imp src)))"
    by (auto simp: process_batch_def Let_def final_def insert_transactions_batch_def)
qed

lemma ex_count_after_first:
  "cross_format_count
     (batch_init\<lparr>cross_format_used := [(''chk:2024-01-15:-2500'', 1)],
                 duplicates := [cf_result ex_bank_row]\<rparr>) ''chk:2024-01-15:-2500'' False = 1"
  "cross_format_count
     (batch_init\<lparr>cross_format_used := [(''chk:2024-01-15:-2500'', 1)],
                 duplicates := [cf_result ex_bank_row]\<rparr>) ''chk:2024-01-15:-2500'' True = 0"
  by (simp_all add: cross_format_count_def is_cross_format_dup_def cf_result_def
        ex_bank_row_fields)

theorem process_batch_cross_format_count_limited_witness:
  "d_tier (deduplicate (\<lambda>s. s) (\<lambda>a b. 0) ex_repo ex_raw_budget ''imp1'') = Some ''cross_format''
   \<and> length (check_cross_format_duplicate ex_repo ''chk:2024-01-15:-2500'' False) = 1
   \<and> cross_format_count
        (process_rows (\<lambda>s. s) (\<lambda>a b. 0) show_nat ex_repo ''imp1'' ''budget_app'' batch_init
           [ex_raw_budget]) ''chk:2024-01-15:-2500'' False = 1
   \<and> make_transaction (show_nat 0) ex_raw_budget ''imp1'' ''chk|2024-01-15|-25.00|Amazon''
        ''budget_app'' ''pending''
       \<in> set (b_transactions (fst (process_batch (\<lambda>s. s) (\<lambda>a b. 0) show_nat ex_repo
                                     [ex_raw_budget, ex_raw_budget] ''imp1'' ''budget_app'')))"
proof -
  let ?s = "process_rows (\<lambda>s. s) (\<lambda>a b. 0) show_nat ex_repo ''imp1'' ''budget_app'' batch_init
              [ex_raw_budget]"
  let ?txn = "make_transaction (show_nat 0) ex_raw_budget ''imp1''
                ''chk|2024-01-15|-25.00|Amazon'' ''budget_app'' ''pending''"
  have s: "?s = batch_init\<lparr>cross_format_used := [(''chk:2024-01-15:-2500'', 1)],
                            duplicates := [cf_result ex_bank_row]\<rparr>"
    by (rule ex_rows1)
  have h1: "[ex_raw_budget, ex_raw_budget] = [ex_raw_budget] @ ex_raw_budget # []" by simp
  have h2: "?txn = make_transaction (show_nat (length (new_txns ?s) + length (flagged ?s)))
                     ex_raw_budget ''imp1'' ''chk|2024-01-15|-25.00|Amazon'' ''budget_app''
                     ''pending''"
    by (simp only: s) (simp add: batch_init_def)
  have h3: "\<not> seen_in_batch ?s ex_raw_budget" by (rule ex_not_seen)
  have h4: "\<not> (''chk|2024-01-15|-25.00|Amazon'' \<in> set (seen_import_hashes ?s)
               \<and> \<not> truthy (r_external_id ex_raw_budget))"
    by (simp only: s) (simp add: batch_init_def)
  have h5: "d_tier (deduplicate (\<lambda>s. s) (\<lambda>a b. 0) ex_repo ex_raw_budget ''imp1'')
              = Some ''cross_format''"
    by (simp add: ex_dedup_budget)
  have c1: "length (check_cross_format_duplicate ex_repo ''chk:2024-01-15:-2500'' False) = 1"
    by (simp add: ex_cross)
  have c2: "cross_format_count ?s ''chk:2024-01-15:-2500'' False = 1"
    and c3: "cross_format_count ?s ''chk:2024-01-15:-2500'' True = 0"
    by (simp_all only: s ex_count_after_first)
  have h6: "length (check_cross_format_duplicate ex_repo ''chk:2024-01-15:-2500''
                      (truthy (r_external_id ex_raw_budget)))
              \<le> cross_format_count ?s ''chk:2024-01-15:-2500'' True
                  + cross_format_count ?s ''chk:2024-01-15:-2500'' False"
    by (simp add: c1 c2 c3 ex_raw_budget_fields truthy_def)
  have prem: "[ex_raw_budget, ex_raw_budget] = [ex_raw_budget] @ ex_raw_budget # []
        \<and> ?s = process_rows (\<lambda>s. s) (\<lambda>a b. 0) show_nat ex_repo ''imp1'' ''budget_app''
                  batch_init [ex_raw_budget]
        \<and> ''chk:2024-01-15:-2500''
            = compute_dedup_key (r_account_id ex_raw_budget) (r_date ex_raw_budget)
                (r_amount ex_raw_budget)
        \<and> ''chk|2024-01-15|-25.00|Amazon''
            = compute_import_hash (\<lambda>s. s) (r_account_id ex_raw_budget) (r_date ex_raw_budget)
                (r_amount ex_raw_budget) (r_raw_description ex_raw_budget)
        \<and> ?txn = make_transaction (show_nat (length (new_txns ?s) + length (flagged ?s)))
                    ex_raw_budget ''imp1'' ''chk|2024-01-15|-25.00|Amazon'' ''budget_app''
                    ''pending''
        \<and> \<not> seen_in_batch ?s ex_raw_budget
        \<and> \<not> (''chk|2024-01-15|-25.00|Amazon'' \<in> set (seen_import_hashes ?s)
               \<and> \<not> truthy (r_external_id ex_raw_budget))
        \<and> d_tier (deduplicate (\<lambda>s. s) (\<lambda>a b. 0) ex_repo ex_raw_budget ''imp1'')
            = Some ''cross_format''
        \<and> length (check_cross_format_duplicate ex_repo ''chk:2024-01-15:-2500''
                    (truthy (r_external_id ex_raw_budget)))
            \<le> cross_format_count ?s ''chk:2024-01-15:-2500'' True
                + cross_format_count ?s ''chk:2024-01-15:-2500'' False"
    using h1 h2 h3 h4 h5 h6 ex_key_budget[symmetric] ex_hash_budget[symmetric]
    by (intro conjI) (rule refl | assumption)+
  note T = process_batch_cross_format_count_limited
             [of "\<lambda>s. s" "\<lambda>a b. 0" show_nat ex_repo "''imp1''" "''budget_app''"
                 "[ex_raw_budget, ex_raw_budget]" "''chk:2024-01-15:-2500''" False,
              THEN conjunct2, rule_format, OF prem]
  then have "?txn \<in> set (b_transactions (fst (process_batch (\<lambda>s. s) (\<lambda>a b. 0) show_nat ex_repo
                                     [ex_raw_budget, ex_raw_budget] ''imp1'' ''budget_app'')))"
    by (elim conjE)
  with h5 c1 c2 show ?thesis by (intro conjI)
qed

text \<open>Three identical budget rows against one bank row: the first is the cross-format
  duplicate, the second is new, and the third, which has the same dedup key, is rejected
  by the intra-batch import-hash check instead of being inserted.\<close>

theorem process_batch_excess_not_always_new:
  "length (check_cross_format_duplicate ex_repo
             (compute_dedup_key (r_account_id ex_raw_budget) (r_date ex_raw_budget)
                (r_amount ex_raw_budget))
             (truthy (r_external_id ex_raw_budget))) = 1
   \<and> map d_tier (duplicates (process_rows (\<lambda>s. s) (\<lambda>a b. 0) show_nat ex_repo ''imp1''
                               ''budget_app'' batch_init
                               [ex_raw_budget, ex_raw_budget, ex_raw_budget]))
       = [Some ''cross_format'', Some ''import_hash'']
   \<and> b_new_count (fst (process_batch (\<lambda>s. s) (\<lambda>a b. 0) show_nat ex_repo
                         [ex_raw_budget, ex_raw_budget, ex_raw_budget] ''imp1''
                         ''budget_app'')) = 1
   \<and> b_duplicate_count (fst (process_batch (\<lambda>s. s) (\<lambda>a b. 0) show_nat ex_repo
                         [ex_raw_budget, ex_raw_budget, ex_raw_budget] ''imp1''
                         ''budget_app'')) = 2"
proof -
  let ?rows = "process_rows (\<lambda>s. s) (\<lambda>a b. 0) show_nat ex_repo ''imp1'' ''budget_app''
                 batch_init [ex_raw_budget, ex_raw_budget, ex_raw_budget]"
  have d: "duplicates ?rows = [cf_result ex_bank_row, dup_only ''import_hash'']"
    and n: "length (new_txns ?rows) = 1"
    by (simp_all only: ex_rows3) (simp_all add: batch_init_def)
  have a: "length (check_cross_format_duplicate ex_repo
             (compute_dedup_key (r_account_id ex_raw_budget) (r_date ex_raw_budget)
                (r_amount ex_raw_budget))
             (truthy (r_external_id ex_raw_budget))) = 1"
    by (simp add: ex_key_budget) (simp add: ex_raw_budget_fields truthy_def ex_cross)
  have b: "map d_tier (duplicates ?rows) = [Some ''cross_format'', Some ''import_hash'']"
    by (simp add: d cf_result_def dup_only_def)
  have c: "b_new_count (fst (process_batch (\<lambda>s. s) (\<lambda>a b. 0) show_nat ex_repo
                         [ex_raw_budget, ex_raw_budget, ex_raw_budget] ''imp1''
                         ''budget_app'')) = 1"
    unfolding process_batch_def Let_def by (simp add: n)
  have e: "b_duplicate_count (fst (process_batch (\<lambda>s. s) (\<lambda>a b. 0) show_nat ex_repo
                         [ex_raw_budget, ex_raw_budget, ex_raw_budget] ''imp1''
                         ''budget_app'')) = 2"
    unfolding process_batch_def Let_def by (simp add: d)
  from a b c e show ?thesis by (intro conjI)
qed

section \<open>Amazon receipt matching divides by a nonzero charge\<close>

lemma py_div_nonzero: "b \<noteq> 0 \<Longrightarrow> py_div a b = Inr (a / b)"
  by (simp add: py_div_def)

lemma positive_within_pct_nonzero:
  "charge \<noteq> 0 \<Longrightarrow> positive_within_pct x charge \<noteq> Inl e"
  by (simp add: positive_within_pct_def py_div_nonzero)

lemma first_subset_within_nonzero:
  "charge \<noteq> 0 \<Longrightarrow> first_subset_within charge amounts combos \<noteq> Inl e"
proof (induction combos)
  case Nil
  then show ?case by simp
next
  case (Cons combo combos)
  from Cons.prems have "positive_within_pct (subset_total amounts combo) charge \<noteq> Inl e'" for e'
    by (rule positive_within_pct_nonzero)
  then obtain b where b: "positive_within_pct (subset_total amounts combo) charge = Inr b"
    by (cases "positive_within_pct (subset_total amounts combo) charge") auto
  show ?case using Cons b by (cases b) simp_all
qed

lemma subset_sum_match_nonzero:
  assumes "charge \<noteq> 0"
  shows "subset_sum_match charge items msg_id confidence \<noteq> Inl e"
proof -
  from assms have "positive_within_pct (sum_list (map i_amount items)) charge \<noteq> Inl e'" for e'
    by (rule positive_within_pct_nonzero)
  then obtain b where b: "positive_within_pct (sum_list (map i_amount items)) charge = Inr b"
    by (cases "positive_within_pct (sum_list (map i_amount items)) charge") auto
  from assms have "first_subset_within charge (map i_amount items)
                     (subsets_by_size (length items)) \<noteq> Inl e'" for e'
    by (rule first_subset_within_nonzero)
  then obtain r where r: "first_subset_within charge (map i_amount items)
                     (subsets_by_size (length items)) = Inr r"
    by (cases "first_subset_within charge (map i_amount items)
                     (subsets_by_size (length items))") auto
  show ?thesis
    by (cases b; cases r) (simp_all add: subset_sum_match_def b r)
qed

lemma total_phase_nonzero:
  "charge \<noteq> 0 \<Longrightarrow> total_phase declared match_type confidence charge receipts \<noteq> Inl e"
proof (induction receipts)
  case Nil
  then show ?case by simp
next
  case (Cons a receipts)
  obtain msg_id parsed where a: "a = (msg_id, parsed)" by (cases a)
  show ?case using Cons by (cases "declared parsed") (simp_all add: a py_div_nonzero)
qed

lemma items_phase_nonzero:
  "charge \<noteq> 0 \<Longrightarrow> items_phase charge receipts \<noteq> Inl e"
proof (induction receipts)
  case Nil
  then show ?case by simp
next
  case (Cons a receipts)
  obtain msg_id parsed where a: "a = (msg_id, parsed)" by (cases a)
  show ?case using Cons
    by (auto simp: a subset_sum_match_nonzero split: sum.splits option.splits)
qed

lemma cross_phase_nonzero:
  "charge \<noteq> 0 \<Longrightarrow> cross_phase charge receipts \<noteq> Inl e"
  by (simp add: cross_phase_def Let_def subset_sum_match_nonzero)

text \<open>Without the guard the division would fail: \<^verbatim>\<open>_subset_sum_match\<close> on a charge of
  zero and an item of positive amount raises \<^verbatim>\<open>ZeroDivisionError\<close>.\<close>

lemma subset_sum_match_zero_charge_raises:
  "subset_sum_match 0 [\<lparr>i_name = ''Cable'', i_amount = 10, i_category_id = None\<rparr>] None (8 / 10)
     = Inl ZeroDivisionError"
  by (simp add: subset_sum_match_def positive_within_pct_def py_div_def)

text \<open>C10. For every transaction whose amount is exactly zero, \<^verbatim>\<open>_resolve_amazon\<close> returns
  no match, and it never fails with a division by zero: every division by the absolute
  charge in its phases, \<^verbatim>\<open>_subset_sum_match\<close> included, has a nonzero divisor
  (\<^verbatim>\<open>_subset_sum_match\<close> does not fail on a nonzero charge, and \<^verbatim>\<open>_resolve_amazon\<close> calls it
  with such a charge only).\<close>

theorem resolve_amazon_no_zero_division:
  "(t_amount txn = 0 \<longrightarrow> resolve_amazon txn receipts = Inr None)
   \<and> resolve_amazon txn receipts \<noteq> Inl e
   \<and> (charge \<noteq> 0 \<longrightarrow> subset_sum_match charge items msg_id confidence \<noteq> Inl e)"
proof (intro conjI impI)
  assume "t_amount txn = 0"
  then show "resolve_amazon txn receipts = Inr None" by (simp add: resolve_amazon_def)
next
  show "resolve_amazon txn receipts \<noteq> Inl e"
  proof (cases "t_amount txn = 0")
    case True
    then show ?thesis by (simp add: resolve_amazon_def)
  next
    case False
    then have c: "\<bar>t_amount txn\<bar> \<noteq> 0" by simp
    show ?thesis using c
      by (auto simp: resolve_amazon_def Let_def total_phase_nonzero items_phase_nonzero
            cross_phase_nonzero split: sum.splits option.splits)
  qed
next
  assume "charge \<noteq> 0"
  then show "subset_sum_match charge items msg_id confidence \<noteq> Inl e"
    by (rule subset_sum_match_nonzero)
qed


theorem resolve_amazon_no_zero_division_witness:
  "resolve_amazon ex_zero_txn ex_amazon_receipts = Inr None
   \<and> resolve_amazon ex_zero_txn ex_amazon_receipts \<noteq> Inl ZeroDivisionError
   \<and> subset_sum_match 10 (pr_items (snd (hd ex_amazon_receipts))) None (8 / 10)
       \<noteq> Inl ZeroDivisionError"
  using resolve_amazon_no_zero_division
          [of ex_zero_txn ex_amazon_receipts ZeroDivisionError 10
              "pr_items (snd (hd ex_amazon_receipts))" None "8 / 10"]
  by (simp add: ex_zero_txn_def)

section \<open>Transfer links\<close>

lemma transfer_count_zero_iff:
  "transfer_count repo i = 0 \<longleftrightarrow> i \<notin> set (linked_ids repo)"
  by (auto simp: transfer_count_def linked_ids_def filter_empty_conv)

lemma get_transfer_None_iff:
  "get_transfer_by_transaction repo i = None \<longleftrightarrow> i \<notin> set (linked_ids repo)"
  by (auto simp: get_transfer_by_transaction_def linked_ids_def find_None_iff)

lemma transfer_count_insert:
  "transfer_count (insert_transfer repo x) i =
     transfer_count repo i
     + (if x_from_transaction_id x = i \<or> x_to_transaction_id x = i then 1 else 0)"
  by (simp add: transfer_count_def insert_transfer_def)

lemma candidates_unlinked:
  "c \<in> set (find_transfer_candidates julianday repo txn days) \<Longrightarrow>
     t_id c \<notin> set (linked_ids repo)"
  by (simp add: find_transfer_candidates_def)

lemma try_link_transfer_writes_cases:
  "try_link_transfer_writes julianday repo txn result = []
   \<or> (\<exists>x c. try_link_transfer_writes julianday repo txn result = [InsertTransfer x]
         \<and> t_id txn \<notin> set (linked_ids repo)
         \<and> c \<in> set (find_transfer_candidates julianday repo txn 5)
         \<and> {x_from_transaction_id x, x_to_transaction_id x} = {t_id txn, t_id c})"
proof (cases "get_transfer_by_transaction repo (t_id txn)")
  case (Some a)
  then show ?thesis by (simp add: try_link_transfer_writes_def)
next
  case None
  then have u: "t_id txn \<notin> set (linked_ids repo)" by (simp add: get_transfer_None_iff)
  show ?thesis
  proof (cases "find_transfer_candidates julianday repo txn 5")
    case Nil
    then show ?thesis using None by (simp add: try_link_transfer_writes_def)
  next
    case (Cons c cs)
    then have "c \<in> set (find_transfer_candidates julianday repo txn 5)" by simp
    then show ?thesis using None Cons u
      by (auto simp: try_link_transfer_writes_def Let_def)
  qed
qed

lemma ex_txn_fields:
  "t_id ex_x = ''x''" "t_account_id ex_x = ''chk''" "t_amount ex_x = - 500"
  "t_date ex_x = ''2024-01-15''"
  "t_id ex_y = ''y''" "t_account_id ex_y = ''sav''" "t_amount ex_y = 500"
  "t_date ex_y = ''2024-01-15''"
  "t_id ex_z = ''z''" "t_account_id ex_z = ''sav2''" "t_amount ex_z = 500"
  "t_date ex_z = ''2024-01-15''"
  by (simp_all add: ex_x_def ex_y_def ex_z_def ex_bank_row_def)

lemma ex_link_repo_fields:
  "transfers ex_unlinked_repo = []"
  "transfers ex_linked_repo = [ex_link_xy]"
  "transactions ex_unlinked_repo = [ex_x, ex_y, ex_z]"
  "transactions ex_linked_repo = [ex_x, ex_y, ex_z]"
  by (simp_all add: ex_unlinked_repo_def ex_linked_repo_def)

lemma ex_candidates_unlinked:
  "find_transfer_candidates ex_julianday ex_unlinked_repo ex_x 5 = [ex_y, ex_z]"
  by (simp add: find_transfer_candidates_def ex_unlinked_repo_def ex_txn_fields
        date_distance_def ex_julianday_def linked_ids_def)

lemma ex_candidates_linked:
  "find_transfer_candidates ex_julianday ex_linked_repo ex_x 5 = [ex_z]"
  by (simp add: find_transfer_candidates_def ex_linked_repo_def ex_txn_fields
        date_distance_def ex_julianday_def linked_ids_def ex_link_xy_def)

lemma ex_link_created:
  "try_link_transfer ex_julianday ex_unlinked_repo ex_x ex_transfer_result = ex_linked_repo"
  by (simp add: try_link_transfer_def try_link_transfer_writes_def ex_candidates_unlinked
        run_writes_def Let_def truthy_def ex_txn_fields ex_transfer_result_def
        get_transfer_by_transaction_def insert_transfer_def ex_link_xy_def
        ex_link_repo_fields)
     (simp add: ex_unlinked_repo_def ex_linked_repo_def ex_link_xy_def)

text \<open>C8. A transaction takes part in at most one transfer. For every transaction that is
  a participant of an existing transfer, \<^verbatim>\<open>_try_link_transfer\<close> makes no write: no transfer row
  is inserted and the repository, the existing link included, is unchanged, because the
  check comes before the candidate search and the insert. And \<^verbatim>\<open>_try_link_transfer\<close> keeps
  the invariant that no transaction is a participant of more than one transfer row.\<close>

theorem try_link_transfer_at_most_one:
  "((\<exists>x \<in> set (transfers repo).
        x_from_transaction_id x = t_id txn \<or> x_to_transaction_id x = t_id txn)
      \<longrightarrow> try_link_transfer_writes julianday repo txn result = []
          \<and> try_link_transfer julianday repo txn result = repo)
   \<and> ((\<forall>i. transfer_count repo i \<le> 1)
      \<longrightarrow> (\<forall>i. transfer_count (try_link_transfer julianday repo txn result) i \<le> 1))"
proof (intro conjI impI allI)
  assume "\<exists>x \<in> set (transfers repo).
        x_from_transaction_id x = t_id txn \<or> x_to_transaction_id x = t_id txn"
  then have "t_id txn \<in> set (linked_ids repo)" by (force simp: linked_ids_def)
  then have "get_transfer_by_transaction repo (t_id txn) \<noteq> None"
    by (simp add: get_transfer_None_iff)
  then show w: "try_link_transfer_writes julianday repo txn result = []"
    by (auto simp: try_link_transfer_writes_def)
  show "try_link_transfer julianday repo txn result = repo"
    by (simp add: try_link_transfer_def w run_writes_def)
next
  fix i
  assume inv: "\<forall>i. transfer_count repo i \<le> 1"
  from try_link_transfer_writes_cases[of julianday repo txn result]
  show "transfer_count (try_link_transfer julianday repo txn result) i \<le> 1"
  proof
    assume "try_link_transfer_writes julianday repo txn result = []"
    then show ?thesis using inv by (simp add: try_link_transfer_def run_writes_def)
  next
    assume "\<exists>x c. try_link_transfer_writes julianday repo txn result = [InsertTransfer x]
         \<and> t_id txn \<notin> set (linked_ids repo)
         \<and> c \<in> set (find_transfer_candidates julianday repo txn 5)
         \<and> {x_from_transaction_id x, x_to_transaction_id x} = {t_id txn, t_id c}"
    then obtain x c where w: "try_link_transfer_writes julianday repo txn result = [InsertTransfer x]"
      and u: "t_id txn \<notin> set (linked_ids repo)"
      and c: "c \<in> set (find_transfer_candidates julianday repo txn 5)"
      and e: "{x_from_transaction_id x, x_to_transaction_id x} = {t_id txn, t_id c}"
      by blast
    from c have uc: "t_id c \<notin> set (linked_ids repo)" by (rule candidates_unlinked)
    have r: "try_link_transfer julianday repo txn result = insert_transfer repo x"
      by (simp add: try_link_transfer_def run_writes_def w)
    show ?thesis
    proof (cases "x_from_transaction_id x = i \<or> x_to_transaction_id x = i")
      case True
      then have "i \<in> {t_id txn, t_id c}" using e by auto
      then have "i \<notin> set (linked_ids repo)" using u uc by auto
      then have "transfer_count repo i = 0" by (simp add: transfer_count_zero_iff)
      then show ?thesis by (simp add: r transfer_count_insert)
    next
      case False
      then show ?thesis using inv by (simp add: r transfer_count_insert)
    qed
  qed
qed

theorem try_link_transfer_at_most_one_witness:
  "try_link_transfer_writes ex_julianday ex_linked_repo ex_x ex_transfer_result = []
   \<and> try_link_transfer ex_julianday ex_linked_repo ex_x ex_transfer_result = ex_linked_repo
   \<and> transfer_count
        (try_link_transfer ex_julianday ex_unlinked_repo ex_x ex_transfer_result) ''x'' \<le> 1"
  using try_link_transfer_at_most_one
          [of ex_linked_repo ex_x ex_julianday ex_transfer_result]
        try_link_transfer_at_most_one
          [of ex_unlinked_repo ex_x ex_julianday ex_transfer_result]
  by (simp add: ex_linked_repo_def ex_unlinked_repo_def ex_link_xy_def ex_txn_fields
        transfer_count_def)

end
